theory Spec2Isabelle
  imports Complex_Main "HOL-Library.Sublist" "HOL-Library.AList"
begin

section \<open>Python values\<close>

text \<open>
  The agents are written in Python. The embedding reads Python's values as follows.
  \<^item> A \<^verbatim>\<open>float\<close> is an exact rational (\<^typ>\<open>rat\<close>): the scores are sums, products and
    quotients of small decimal constants, and the theorems below are about their exact
    values, not about binary rounding.
  \<^item> A \<^verbatim>\<open>str\<close> is a \<^typ>\<open>string\<close> of ASCII characters; \<^verbatim>\<open>str.lower\<close> maps the letters
    \<^verbatim>\<open>A\<close>..\<^verbatim>\<open>Z\<close> to \<^verbatim>\<open>a\<close>..\<^verbatim>\<open>z\<close>.
  \<^item> A profile or a job posting is a \<^verbatim>\<open>Dict[str, Any]\<close>. The record \<open>profile\<close> has one
    optional field for each key the code reads (\<open>None\<close>: the key is absent), typed as the
    dataclasses \<^verbatim>\<open>CandidateData\<close> and \<^verbatim>\<open>JobData\<close> declare it, and \<open>other_keys\<close> for the keys
    the code never reads. With values of the declared types the only statement of the
    scoring functions that can raise is a division.
  \<^item> \<^verbatim>\<open>list(set(...))\<close> lists a set in an order Python does not fix. The embedding lists the
    elements in the order of their first occurrence; the theorems speak of the length and
    the members of such lists only.
\<close>

definition char_lower :: "char \<Rightarrow> char" where
  "char_lower c =
     (let n = of_char c :: nat in if 65 \<le> n \<and> n \<le> 90 then char_of (n + 32) else c)"

definition lower :: "string \<Rightarrow> string" where
  "lower s = map char_lower s"

text \<open>\<^verbatim>\<open>a in b\<close> on strings: \<open>a\<close> occurs in \<open>b\<close> as a contiguous slice.\<close>

primrec str_in :: "string \<Rightarrow> string \<Rightarrow> bool" where
  "str_in a [] = (a = [])"
| "str_in a (c # cs) = (prefix a (c # cs) \<or> str_in a cs)"

text \<open>\<^verbatim>\<open>d.get(key, default)\<close> on an optional field.\<close>

definition dict_get :: "'a option \<Rightarrow> 'a \<Rightarrow> 'a" where
  "dict_get field dflt = (case field of None \<Rightarrow> dflt | Some v \<Rightarrow> v)"

text \<open>The exceptions the embedded code can raise, and \<^verbatim>\<open>a / b\<close>, which raises
  \<^verbatim>\<open>ZeroDivisionError\<close> on a zero divisor (in HOL \<open>a / 0 = 0\<close>).\<close>

datatype py_error = KeyError | ValueError | TypeError | ZeroDivisionError

definition py_truediv :: "rat \<Rightarrow> rat \<Rightarrow> py_error + rat" where
  "py_truediv a b = (if b = 0 then Inl ZeroDivisionError else Inr (a / b))"

definition is_digit :: "char \<Rightarrow> bool" where
  "is_digit c = (48 \<le> (of_char c :: nat) \<and> (of_char c :: nat) \<le> 57)"

text \<open>\<^verbatim>\<open>re.findall(r'\d+', s)\<close>: the maximal runs of decimal digits of \<open>s\<close>, left to right;
  \<open>cur\<close> is the run being read.\<close>

fun digit_runs :: "string \<Rightarrow> string \<Rightarrow> string list" where
  "digit_runs cur [] = (if cur = [] then [] else [cur])"
| "digit_runs cur (c # cs) =
     (if is_digit c then digit_runs (cur @ [c]) cs
      else (if cur = [] then [] else [cur]) @ digit_runs [] cs)"

definition findall_digits :: "string \<Rightarrow> string list" where
  "findall_digits s = digit_runs [] s"

text \<open>\<^verbatim>\<open>int(x)\<close> on a string of decimal digits.\<close>

definition int_of_digits :: "string \<Rightarrow> nat" where
  "int_of_digits s = foldl (\<lambda>n c. 10 * n + ((of_char c :: nat) - 48)) 0 s"

text \<open>\<^verbatim>\<open>str(n)\<close> on a natural number.\<close>

fun str_of_nat :: "nat \<Rightarrow> string" where
  "str_of_nat n =
     (if n < 10 then [char_of (48 + n)] else str_of_nat (n div 10) @ [char_of (48 + n mod 10)])"

declare str_of_nat.simps [simp del]

text \<open>\<^verbatim>\<open>sep.join(xs)\<close>.\<close>

fun join :: "string \<Rightarrow> string list \<Rightarrow> string" where
  "join sep [] = []"
| "join sep [x] = x"
| "join sep (x # y # ys) = x @ sep @ join sep (y # ys)"

section \<open>Job matching workflow (\<^verbatim>\<open>job_finder_agent/workflows/match_jobs.py\<close>)\<close>

record JobMatch =
  job_id :: string
  job_title :: string
  company :: string
  location :: string
  match_score :: rat
  reasoning :: string
  skills_match :: "string list"
  missing_skills :: "string list"
  salary_range :: "string option"
  job_type :: string
  remote_friendly :: bool

text \<open>One entry of the list under the key \<^verbatim>\<open>work_experience\<close>.\<close>

record work_entry =
  we_title :: "string option"
  we_company :: "string option"
  we_description :: "string option"

record profile =
  skills :: "string list option"
  experience_years :: "rat option"
  experience_level :: "string option"
  location :: "string option"
  remote_preference :: "bool option"
  remote_friendly :: "bool option"
  salary_expectation :: "string option"
  salary_range :: "string option"
  preferred_roles :: "string list option"
  title :: "string option"
  company :: "string option"
  job_type :: "string option"
  work_experience :: "work_entry list option"
  portfolio_links :: "string list option"
  other_keys :: "string list"

text \<open>The empty dictionary \<^verbatim>\<open>{}\<close>.\<close>

definition empty_profile :: profile where
  "empty_profile =
     \<lparr>skills = None, experience_years = None, experience_level = None, location = None,
      remote_preference = None, remote_friendly = None, salary_expectation = None,
      salary_range = None, preferred_roles = None, title = None, company = None,
      job_type = None, work_experience = None, portfolio_links = None, other_keys = []\<rparr>"

text \<open>One entry of \<^verbatim>\<open>available_jobs\<close>: the dictionary with the keys \<^verbatim>\<open>id\<close>, \<^verbatim>\<open>metadata\<close> and
  \<^verbatim>\<open>score\<close>.\<close>

record job_data =
  jd_id :: string
  jd_metadata :: profile
  jd_score :: rat

record SearchResult =
  document_id :: string
  sr_metadata :: profile
  sr_score :: rat

record MatchingState =
  candidate_id :: string
  candidate_profile :: profile
  available_jobs :: "job_data list"
  matches :: "JobMatch list"
  current_job_index :: int
  is_complete :: bool
  error_message :: string
  min_match_score :: rat
  max_matches :: int
  required_skills_weight :: rat
  experience_weight :: rat
  location_weight :: rat
  salary_weight :: rat

text \<open>\<^verbatim>\<open>MatchingState(candidate_id=...)\<close>: the field defaults of the class.\<close>

definition MatchingState_init :: "string \<Rightarrow> MatchingState" where
  "MatchingState_init cid =
     \<lparr>candidate_id = cid, candidate_profile = empty_profile, available_jobs = [],
      matches = [], current_job_index = 0, is_complete = False, error_message = [],
      min_match_score = 0.7, max_matches = 10, required_skills_weight = 0.4,
      experience_weight = 0.3, location_weight = 0.2, salary_weight = 0.1\<rparr>"

subsection \<open>The score\<close>

definition extract_min_experience :: "string \<Rightarrow> int" where
  "extract_min_experience level =
     (let l = lower level in
      if l = ''entry'' then 0 else if l = ''junior'' then 0 else if l = ''mid'' then 3
      else if l = ''senior'' then 5 else if l = ''lead'' then 8
      else if l = ''principal'' then 12 else 0)"

definition extract_max_experience :: "string \<Rightarrow> int" where
  "extract_max_experience level =
     (let l = lower level in
      if l = ''entry'' then 2 else if l = ''junior'' then 2 else if l = ''mid'' then 5
      else if l = ''senior'' then 8 else if l = ''lead'' then 12
      else if l = ''principal'' then 20 else 5)"

text \<open>The body of \<^verbatim>\<open>_calculate_salary_match\<close> is wrapped in
  \<^verbatim>\<open>try: ... except Exception: return 0.5\<close>.\<close>

definition calculate_salary_match :: "string \<Rightarrow> string \<Rightarrow> rat" where
  "calculate_salary_match candidate_salary job_salary =
     (if candidate_salary = [] \<or> job_salary = [] then 0.5
      else
        let candidate_numbers = map int_of_digits (findall_digits candidate_salary);
            job_numbers = map int_of_digits (findall_digits job_salary)
        in if candidate_numbers = [] \<or> job_numbers = [] then 0.5
           else
             (case py_truediv (of_nat (sum_list candidate_numbers))
                     (of_nat (length candidate_numbers)) of
                Inl e \<Rightarrow> 0.5
              | Inr candidate_avg \<Rightarrow>
                  (case py_truediv (of_nat (sum_list job_numbers))
                          (of_nat (length job_numbers)) of
                     Inl e \<Rightarrow> 0.5
                   | Inr job_avg \<Rightarrow>
                       if job_avg > 0 then
                         (case py_truediv candidate_avg job_avg of
                            Inl e \<Rightarrow> 0.5
                          | Inr ratio \<Rightarrow>
                              if 0.8 \<le> ratio \<and> ratio \<le> 1.2 then 1.0
                              else if 0.6 \<le> ratio \<and> ratio \<le> 1.4 then 0.7
                              else 0.3)
                       else 0.5)))"

text \<open>The four factors are the local variables \<^verbatim>\<open>skills_score\<close>, \<^verbatim>\<open>exp_score\<close>,
  \<^verbatim>\<open>location_score\<close> and \<^verbatim>\<open>salary_score\<close> of \<^verbatim>\<open>_calculate_match_score\<close>.\<close>

definition skills_score :: "profile \<Rightarrow> string list \<Rightarrow> py_error + rat" where
  "skills_score job skills_match_arg =
     (let job_skills = remdups (dict_get (skills job) [])
      in if job_skills = [] then Inr 0.0
         else py_truediv (of_nat (length skills_match_arg)) (of_nat (length job_skills)))"

definition exp_score :: "profile \<Rightarrow> profile \<Rightarrow> rat" where
  "exp_score candidate job =
     (let candidate_exp = dict_get (experience_years candidate) 0;
          job_exp_min = of_int (extract_min_experience (dict_get (experience_level job) []));
          job_exp_max = of_int (extract_max_experience (dict_get (experience_level job) []))
      in if job_exp_min \<le> candidate_exp \<and> candidate_exp \<le> job_exp_max then 1.0
         else if candidate_exp < job_exp_min
           then max 0.0 (1.0 - (job_exp_min - candidate_exp) / 5.0)
         else max 0.0 (1.0 - (candidate_exp - job_exp_max) / 5.0))"

definition location_score :: "profile \<Rightarrow> profile \<Rightarrow> rat" where
  "location_score candidate job =
     (let candidate_location = lower (dict_get (location candidate) []);
          job_location = lower (dict_get (location job) [])
      in if str_in candidate_location job_location \<or> str_in job_location candidate_location
           then 1.0
         else if dict_get (remote_preference candidate) False
                 \<and> dict_get (profile.remote_friendly job) False
           then 0.8
         else 0.0)"

definition salary_score :: "profile \<Rightarrow> profile \<Rightarrow> rat" where
  "salary_score candidate job =
     calculate_salary_match (dict_get (salary_expectation candidate) [])
       (dict_get (profile.salary_range job) [])"

text \<open>The body of \<^verbatim>\<open>_calculate_match_score\<close> is wrapped in
  \<^verbatim>\<open>try: ... except Exception: return 0.0\<close>.\<close>

definition calculate_match_score ::
  "profile \<Rightarrow> profile \<Rightarrow> string list \<Rightarrow> string list \<Rightarrow> rat" where
  "calculate_match_score candidate job skills_match_arg missing_skills_arg =
     (case skills_score job skills_match_arg of
        Inl e \<Rightarrow> 0.0
      | Inr skills_score_v \<Rightarrow>
          (let total_score =
                 skills_score_v * 0.4 +
                 exp_score candidate job * 0.3 +
                 location_score candidate job * 0.2 +
                 salary_score candidate job * 0.1
           in min 1.0 (max 0.0 total_score)))"

subsection \<open>Matching one job\<close>

text \<open>\<^verbatim>\<open>_generate_match_reasoning\<close>. The prompt it builds first is never used; the text
  returned is assembled from the score and the two skill lists.\<close>

definition generate_match_reasoning ::
  "profile \<Rightarrow> profile \<Rightarrow> string list \<Rightarrow> string list \<Rightarrow> rat \<Rightarrow> string" where
  "generate_match_reasoning candidate job skills_match_arg missing_skills_arg score =
     (if score \<ge> 0.8 then
        ''Excellent match! The candidate has '' @ str_of_nat (length skills_match_arg)
          @ '' out of '' @ str_of_nat (length (dict_get (skills job) []))
          @ '' required skills. ''
          @ (if skills_match_arg \<noteq> []
             then ''Strong alignment in: '' @ join '', '' (take 3 skills_match_arg) @ ''. ''
             else [])
          @ (if missing_skills_arg \<noteq> []
             then ''Could learn: '' @ join '', '' (take 2 missing_skills_arg) @ ''. ''
             else [])
          @ ''Experience level and role preferences align well.''
      else if score \<ge> 0.6 then
        ''Good match with '' @ str_of_nat (length skills_match_arg) @ '' matching skills. ''
          @ (if missing_skills_arg \<noteq> []
             then ''Would need to develop: '' @ join '', '' (take 3 missing_skills_arg) @ ''. ''
             else [])
          @ ''Experience level is appropriate for the role.''
      else
        ''Limited match with only '' @ str_of_nat (length skills_match_arg)
          @ '' matching skills. ''
          @ (if missing_skills_arg \<noteq> []
             then ''Significant skill gaps: '' @ join '', '' (take 3 missing_skills_arg) @ ''. ''
             else [])
          @ ''May not be the best fit for this position.'')"

text \<open>The two lists computed at the head of \<^verbatim>\<open>analyze_job_match\<close>:
  \<^verbatim>\<open>list(candidate_skills.intersection(job_skills))\<close> and
  \<^verbatim>\<open>list(job_skills - candidate_skills)\<close>.\<close>

definition matching_skills_of :: "profile \<Rightarrow> profile \<Rightarrow> string list" where
  "matching_skills_of candidate job =
     filter (\<lambda>s. s \<in> set (dict_get (skills job) [])) (remdups (dict_get (skills candidate) []))"

definition missing_skills_of :: "profile \<Rightarrow> profile \<Rightarrow> string list" where
  "missing_skills_of candidate job =
     filter (\<lambda>s. s \<notin> set (dict_get (skills candidate) [])) (remdups (dict_get (skills job) []))"

definition analyze_job_match :: "MatchingState \<Rightarrow> job_data \<Rightarrow> JobMatch" where
  "analyze_job_match state jd =
     (let skills_match_v = matching_skills_of (candidate_profile state) (jd_metadata jd);
          missing_skills_v = missing_skills_of (candidate_profile state) (jd_metadata jd);
          match_score_v = calculate_match_score (candidate_profile state) (jd_metadata jd)
                            skills_match_v missing_skills_v;
          reasoning_v = generate_match_reasoning (candidate_profile state) (jd_metadata jd)
                            skills_match_v missing_skills_v match_score_v
      in \<lparr>job_id = jd_id jd,
          job_title = dict_get (title (jd_metadata jd)) [],
          company = dict_get (profile.company (jd_metadata jd)) [],
          location = dict_get (profile.location (jd_metadata jd)) [],
          match_score = match_score_v,
          reasoning = reasoning_v,
          skills_match = skills_match_v,
          missing_skills = missing_skills_v,
          salary_range = profile.salary_range (jd_metadata jd),
          job_type = dict_get (profile.job_type (jd_metadata jd)) ''full-time'',
          remote_friendly = dict_get (profile.remote_friendly (jd_metadata jd)) False\<rparr>)"

subsection \<open>The stages\<close>

text \<open>
  A stage takes the state and returns the state. What an awaited external call did is an
  argument of the stage: \<open>Inl e\<close> when it raised an exception whose text is \<open>e\<close>, \<open>Inr r\<close>
  when it returned \<open>r\<close>. Every stage body is wrapped in
  \<^verbatim>\<open>try: ... except Exception as e: state.error_message = str(e)\<close>.
\<close>

definition load_candidate_profile ::
  "MatchingState \<Rightarrow> string + profile option \<Rightarrow> MatchingState" where
  "load_candidate_profile state fetched =
     (case fetched of
        Inl e \<Rightarrow> state\<lparr>error_message := e\<rparr>
      | Inr None \<Rightarrow> state\<lparr>error_message := ''Candidate profile not found''\<rparr>
      | Inr (Some md) \<Rightarrow> state\<lparr>candidate_profile := md\<rparr>)"

definition search_available_jobs ::
  "MatchingState \<Rightarrow> string + SearchResult list \<Rightarrow> MatchingState" where
  "search_available_jobs state found =
     (if candidate_profile state = empty_profile then state
      else case found of
             Inl e \<Rightarrow> state\<lparr>error_message := e\<rparr>
           | Inr search_results \<Rightarrow>
               state\<lparr>available_jobs :=
                 map (\<lambda>r. \<lparr>jd_id = document_id r, jd_metadata = sr_metadata r,
                            jd_score = sr_score r\<rparr>) search_results\<rparr>)"

text \<open>
  The loop of \<^verbatim>\<open>process_job_matches\<close>; \<open>acc\<close> is the list \<^verbatim>\<open>matches\<close> built so far. For each
  job the loop awaits \<^verbatim>\<open>self.analyze_job_match(state, job_data)\<close>; what that call returns
  is given by the argument \<open>analyze\<close>. A match score is a double, and a comparison of two
  doubles is the comparison of the two rationals they stand for: the loop and the sort
  below are exact on the scores that \<open>analyze\<close> returns, whatever rounding went into them.
\<close>

fun collect_matches ::
  "(MatchingState \<Rightarrow> job_data \<Rightarrow> JobMatch) \<Rightarrow> MatchingState \<Rightarrow> job_data list \<Rightarrow> JobMatch list
     \<Rightarrow> JobMatch list" where
  "collect_matches analyze state [] acc = acc"
| "collect_matches analyze state (jd # rest) acc =
     (if int (length acc) \<ge> max_matches state then acc
      else
        let m = analyze state jd
        in collect_matches analyze state rest
             (if match_score m \<ge> min_match_score state then acc @ [m] else acc))"

text \<open>\<^verbatim>\<open>xs.sort(key=f, reverse=True)\<close>: Python's sort is stable, and with \<^verbatim>\<open>reverse=True\<close>
  elements with equal keys keep their original order.\<close>

definition sort_reverse :: "('a \<Rightarrow> rat) \<Rightarrow> 'a list \<Rightarrow> 'a list" where
  "sort_reverse f xs = sort_key (\<lambda>x. - f x) xs"

definition process_job_matches ::
  "(MatchingState \<Rightarrow> job_data \<Rightarrow> JobMatch) \<Rightarrow> MatchingState \<Rightarrow> MatchingState" where
  "process_job_matches analyze state =
     state\<lparr>matches :=
       sort_reverse match_score (collect_matches analyze state (available_jobs state) [])\<rparr>"

text \<open>\<open>sent\<close>: \<open>Some e\<close> when building or sending the match request raised \<open>e\<close>.\<close>

definition notify_candidate_finder :: "MatchingState \<Rightarrow> string option \<Rightarrow> MatchingState" where
  "notify_candidate_finder state sent =
     (if matches state = [] then state
      else case sent of None \<Rightarrow> state | Some e \<Rightarrow> state\<lparr>error_message := e\<rparr>)"

text \<open>
  \<^verbatim>\<open>create_job_matching_graph\<close> orders the stages by its edges:
  \<^verbatim>\<open>load_profile -> search_jobs -> process_matches -> notify_finder -> END\<close>. How the
  compiled graph calls its nodes belongs to LangGraph and is not embedded; where a
  theorem below speaks of the stages applied in this order, it speaks of the four
  coroutines above, each awaited on the state the one before returned.
\<close>

section \<open>Candidate analysis workflow (\<^verbatim>\<open>candidate_finder_agent/workflows/analyze_candidates.py\<close>)\<close>

text \<open>
  Each analysis dictionary of the state is \<^verbatim>\<open>{}\<close> until its stage has run and holds all
  its keys afterwards: it is an optional record, \<open>None\<close> for \<^verbatim>\<open>{}\<close>. The dictionary
  \<^verbatim>\<open>technical_assessment\<close> is never written or read and is left out.
  \<^verbatim>\<open>CandidateAnalyzer._extract_min_experience\<close> and \<^verbatim>\<open>_extract_max_experience\<close> repeat the
  tables of \<^verbatim>\<open>JobMatcher\<close> literally; \<open>extract_min_experience\<close> and
  \<open>extract_max_experience\<close> stand for both.
\<close>

record skills_analysis_d =
  sa_matching_skills :: "string list"
  sa_missing_skills :: "string list"
  sa_additional_skills :: "string list"
  sa_skill_coverage :: rat
  sa_skill_levels :: "(string \<times> string \<times> rat \<times> string) list"
  sa_overall_skill_score :: rat

record relevant_entry =
  re_experience :: work_entry
  re_relevance_score :: rat

record experience_analysis_d =
  ea_candidate_experience_years :: rat
  ea_required_experience_range :: string
  ea_experience_fit_score :: rat
  ea_experience_assessment :: string
  ea_relevant_experience :: "relevant_entry list"
  ea_total_relevant_experience :: nat

text \<open>One entry of \<^verbatim>\<open>detailed_analysis\<close>: the user name or link analysed and the score; the
  tool's own result, stored beside them, is opaque to the workflow.\<close>

record platform_analysis =
  pl_subject :: string
  pl_score :: rat

record portfolio_analysis_d =
  pa_portfolio_links :: "string list"
  pa_detailed_analysis :: "(string \<times> platform_analysis) list"
  pa_overall_portfolio_score :: rat
  pa_portfolio_strengths :: "string list"
  pa_portfolio_weaknesses :: "string list"

record cultural_fit_d =
  cf_cultural_fit_score :: rat
  cf_experience_alignment :: bool
  cf_remote_preference_match :: bool
  cf_location_compatibility :: bool
  cf_recommendations :: "string list"

record analysis_results_d =
  ar_overall_score :: rat
  ar_skill_score :: rat
  ar_experience_score :: rat
  ar_portfolio_score :: rat
  ar_cultural_score :: rat
  ar_recommendations :: "string list"
  ar_risk_factors :: "string list"
  ar_interview_questions :: "string list"
  ar_assessment_summary :: string

record AnalysisState =
  candidate_id :: string
  job_requirements :: profile
  candidate_profile :: profile
  analysis_results :: "analysis_results_d option"
  current_step :: string
  is_complete :: bool
  error_message :: string
  skills_analysis :: "skills_analysis_d option"
  experience_analysis :: "experience_analysis_d option"
  portfolio_analysis :: "portfolio_analysis_d option"
  cultural_fit_analysis :: "cultural_fit_d option"

definition AnalysisState_init :: "string \<Rightarrow> profile \<Rightarrow> AnalysisState" where
  "AnalysisState_init cid reqs =
     \<lparr>candidate_id = cid, job_requirements = reqs, candidate_profile = empty_profile,
      analysis_results = None, current_step = ''load_profile'', is_complete = False,
      error_message = [], skills_analysis = None, experience_analysis = None,
      portfolio_analysis = None, cultural_fit_analysis = None\<rparr>"

subsection \<open>Skills\<close>

definition additional_skills_of :: "profile \<Rightarrow> profile \<Rightarrow> string list" where
  "additional_skills_of candidate job =
     filter (\<lambda>s. s \<notin> set (dict_get (skills job) [])) (remdups (dict_get (skills candidate) []))"

definition analyze_skills :: "AnalysisState \<Rightarrow> AnalysisState" where
  "analyze_skills state =
     (let required_skills = remdups (dict_get (skills (job_requirements state)) []);
          matching_skills = matching_skills_of (candidate_profile state) (job_requirements state);
          missing_skills_v = missing_skills_of (candidate_profile state) (job_requirements state);
          additional_skills = additional_skills_of (candidate_profile state) (job_requirements state);
          skill_levels = map (\<lambda>skill. (skill, ''proficient'', 0.8,
                                          ''Based on experience and portfolio'')) matching_skills
      in case (if required_skills \<noteq> []
               then py_truediv (of_nat (length matching_skills)) (of_nat (length required_skills))
               else Inr 0.0) of
           Inl e \<Rightarrow> state\<lparr>error_message := ''division by zero''\<rparr>
         | Inr skill_coverage \<Rightarrow>
             state\<lparr>skills_analysis := Some
               \<lparr>sa_matching_skills = matching_skills,
                sa_missing_skills = missing_skills_v,
                sa_additional_skills = additional_skills,
                sa_skill_coverage = skill_coverage,
                sa_skill_levels = skill_levels,
                sa_overall_skill_score = min 1.0 (skill_coverage * 1.2)\<rparr>\<rparr>)"

subsection \<open>Experience\<close>

definition is_space :: "char \<Rightarrow> bool" where
  "is_space c = (let n = of_char c :: nat in (9 \<le> n \<and> n \<le> 13) \<or> (28 \<le> n \<and> n \<le> 32))"

text \<open>\<^verbatim>\<open>s.split()\<close>: the maximal runs of characters that are not whitespace; \<open>cur\<close> is the
  word being read.\<close>

fun split_words :: "string \<Rightarrow> string \<Rightarrow> string list" where
  "split_words cur [] = (if cur = [] then [] else [cur])"
| "split_words cur (c # cs) =
     (if is_space c then (if cur = [] then [] else [cur]) @ split_words [] cs
      else split_words (cur @ [c]) cs)"

text \<open>The body of \<^verbatim>\<open>_calculate_experience_relevance\<close> is wrapped in
  \<^verbatim>\<open>try: ... except Exception: return 0.0\<close>.\<close>

definition calculate_experience_relevance :: "work_entry \<Rightarrow> profile \<Rightarrow> rat" where
  "calculate_experience_relevance experience reqs =
     (let job_title_v = lower (dict_get (we_title experience) []);
          job_description = lower (dict_get (we_description experience) []);
          required_skills = map lower (dict_get (skills reqs) []);
          required_role = lower (dict_get (title reqs) []);
          s1 = (if required_role \<noteq> []
                   \<and> list_ex (\<lambda>word. str_in word job_title_v) (split_words [] required_role)
                then 0.3 else 0.0);
          skill_matches = length (filter (\<lambda>skill. str_in skill job_description) required_skills)
      in if required_skills \<noteq> []
         then (case py_truediv (of_nat skill_matches) (of_nat (length required_skills)) of
                 Inl e \<Rightarrow> 0.0
               | Inr q \<Rightarrow> min 1.0 (s1 + q * 0.7))
         else min 1.0 s1)"

definition analyze_experience :: "AnalysisState \<Rightarrow> AnalysisState" where
  "analyze_experience state =
     (let candidate_exp = dict_get (experience_years (candidate_profile state)) 0;
          required_exp_min = extract_min_experience
                               (dict_get (experience_level (job_requirements state)) []);
          required_exp_max = extract_max_experience
                               (dict_get (experience_level (job_requirements state)) []);
          fit = (if of_int required_exp_min \<le> candidate_exp \<and> candidate_exp \<le> of_int required_exp_max
                   then (1.0, ''excellent'')
                 else if candidate_exp < of_int required_exp_min
                   then (max 0.0 (1.0 - (of_int required_exp_min - candidate_exp) / 5.0),
                         ''below_required'')
                 else (max 0.0 (1.0 - (candidate_exp - of_int required_exp_max) / 5.0),
                       ''overqualified''));
          work_experience_v = dict_get (work_experience (candidate_profile state)) [];
          relevant_experience =
            map (\<lambda>exp. \<lparr>re_experience = exp,
                         re_relevance_score =
                           calculate_experience_relevance exp (job_requirements state)\<rparr>)
              (filter (\<lambda>exp. calculate_experience_relevance exp (job_requirements state) > 0.5)
                 work_experience_v)
      in state\<lparr>experience_analysis := Some
           \<lparr>ea_candidate_experience_years = candidate_exp,
            ea_required_experience_range =
              str_of_nat (nat required_exp_min) @ ''-'' @ str_of_nat (nat required_exp_max),
            ea_experience_fit_score = fst fit,
            ea_experience_assessment = snd fit,
            ea_relevant_experience = relevant_experience,
            ea_total_relevant_experience = length relevant_experience\<rparr>\<rparr>)"

subsection \<open>Cultural fit\<close>

definition generate_cultural_fit_recommendations :: "AnalysisState \<Rightarrow> string list" where
  "generate_cultural_fit_recommendations state =
     (let candidate_exp = dict_get (experience_years (candidate_profile state)) 0;
          required_exp = extract_min_experience
                           (dict_get (experience_level (job_requirements state)) []);
          candidate_remote = dict_get (remote_preference (candidate_profile state)) False;
          job_remote = dict_get (profile.remote_friendly (job_requirements state)) False
      in (if candidate_exp < of_int required_exp
          then [''Consider gaining more experience in the field''] else [])
         @ (if candidate_remote \<noteq> job_remote
            then [''Consider flexibility in remote work preferences''] else []))"

definition assess_cultural_fit :: "AnalysisState \<Rightarrow> AnalysisState" where
  "assess_cultural_fit state =
     (let candidate_exp = dict_get (experience_years (candidate_profile state)) 0;
          required_exp = extract_min_experience
                           (dict_get (experience_level (job_requirements state)) []);
          s1 = 0.7 + (if candidate_exp \<ge> of_int required_exp then 0.1 else 0);
          candidate_remote = dict_get (remote_preference (candidate_profile state)) False;
          job_remote = dict_get (profile.remote_friendly (job_requirements state)) False;
          s2 = s1 + (if candidate_remote = job_remote then 0.1 else 0);
          candidate_location = lower (dict_get (profile.location (candidate_profile state)) []);
          job_location = lower (dict_get (profile.location (job_requirements state)) []);
          compatible = (str_in candidate_location job_location
                          \<or> str_in job_location candidate_location);
          s3 = s2 + (if compatible then 0.1 else 0)
      in state\<lparr>cultural_fit_analysis := Some
           \<lparr>cf_cultural_fit_score = min 1.0 s3,
            cf_experience_alignment = (candidate_exp \<ge> of_int required_exp),
            cf_remote_preference_match = (candidate_remote = job_remote),
            cf_location_compatibility = compatible,
            cf_recommendations = generate_cultural_fit_recommendations state\<rparr>\<rparr>)"

subsection \<open>Portfolio\<close>

text \<open>The results of the two external tools, with the keys the rubrics read.\<close>

record github_result =
  repository_count :: "int option"
  total_stars :: "int option"
  recent_commits :: "int option"
  languages :: "string list option"

text \<open>\<open>rr_education\<close> holds, for each entry of \<^verbatim>\<open>education\<close>, its \<^verbatim>\<open>degree\<close> if it has one.\<close>

record resume_result =
  rr_experience_years :: "rat option"
  rr_skills :: "string list option"
  rr_education :: "string option list option"
  rr_certifications :: "string list option"

record 'r tool_response =
  success :: bool
  result :: 'r

definition calculate_github_score :: "github_result \<Rightarrow> rat" where
  "calculate_github_score github_analysis =
     (let repo_count = dict_get (repository_count github_analysis) 0;
          s1 = (if repo_count \<ge> 10 then 0.3 else if repo_count \<ge> 5 then 0.2
                else if repo_count \<ge> 2 then 0.1 else 0.0);
          total_stars_v = dict_get (total_stars github_analysis) 0;
          s2 = s1 + (if total_stars_v \<ge> 100 then 0.3 else if total_stars_v \<ge> 20 then 0.2
                     else if total_stars_v \<ge> 5 then 0.1 else 0.0);
          recent_commits_v = dict_get (recent_commits github_analysis) 0;
          s3 = s2 + (if recent_commits_v \<ge> 50 then 0.2 else if recent_commits_v \<ge> 20 then 0.15
                     else if recent_commits_v \<ge> 5 then 0.1 else 0.0);
          languages_v = dict_get (languages github_analysis) [];
          s4 = s3 + (if length languages_v \<ge> 3 then 0.2 else if length languages_v \<ge> 2 then 0.1
                     else 0.0)
      in min 1.0 s4)"

definition calculate_resume_score :: "resume_result \<Rightarrow> rat" where
  "calculate_resume_score resume_analysis =
     (let experience_years_v = dict_get (rr_experience_years resume_analysis) 0;
          s1 = (if experience_years_v \<ge> 5 then 0.3 else if experience_years_v \<ge> 3 then 0.2
                else if experience_years_v \<ge> 1 then 0.1 else 0.0);
          skills_count = length (dict_get (rr_skills resume_analysis) []);
          s2 = s1 + (if skills_count \<ge> 10 then 0.3 else if skills_count \<ge> 5 then 0.2
                     else if skills_count \<ge> 2 then 0.1 else 0.0);
          education = dict_get (rr_education resume_analysis) [];
          has = (\<lambda>word. list_ex (\<lambda>edu. str_in word (lower (dict_get edu []))) education);
          s3 = s2 + (if has ''phd'' then 0.2 else if has ''master'' then 0.15
                     else if has ''bachelor'' then 0.1 else 0.0);
          certifications = dict_get (rr_certifications resume_analysis) [];
          s4 = s3 + (if length certifications \<ge> 3 then 0.2
                     else if length certifications \<ge> 1 then 0.1 else 0.0)
      in min 1.0 s4)"

text \<open>\<^verbatim>\<open>s.split(sep)[-1]\<close> for a separator that cannot overlap itself: what follows the last
  occurrence of \<open>sep\<close>, or all of \<open>s\<close> when there is none.\<close>

fun after_last :: "string \<Rightarrow> string \<Rightarrow> string" where
  "after_last sep [] = []"
| "after_last sep (c # cs) =
     (if str_in sep cs then after_last sep cs
      else if prefix sep (c # cs) then drop (length sep) (c # cs)
      else c # cs)"

text \<open>\<^verbatim>\<open>link.split("github.com/")[-1].split("/")[0]\<close>.\<close>

definition github_username :: "string \<Rightarrow> string" where
  "github_username link = takeWhile (\<lambda>c. c \<noteq> CHR ''/'') (after_last ''github.com/'' link)"

text \<open>
  The loop over the portfolio links. \<open>github\<close> and \<open>resume\<close> are the two awaited tool
  calls, as functions of their argument: \<open>Inl e\<close> when the call raises \<open>e\<close>. \<open>acc\<close> is
  the dictionary \<^verbatim>\<open>portfolio_analysis\<close> built so far, in insertion order. An exception
  leaves the loop and the stage.
\<close>

fun analyze_links ::
  "(string \<Rightarrow> string + github_result tool_response) \<Rightarrow>
   (string \<Rightarrow> string + resume_result tool_response) \<Rightarrow>
   string list \<Rightarrow> (string \<times> platform_analysis) list \<Rightarrow>
   string + (string \<times> platform_analysis) list" where
  "analyze_links github resume [] acc = Inr acc"
| "analyze_links github resume (link # links) acc =
     (if str_in ''github.com'' link then
        (let username = github_username link
         in case github username of
              Inl e \<Rightarrow> Inl e
            | Inr response \<Rightarrow>
                analyze_links github resume links
                  (if success response
                   then AList.update ''github''
                          \<lparr>pl_subject = username,
                           pl_score = calculate_github_score (result response)\<rparr> acc
                   else acc))
      else if str_in ''linkedin.com'' link then
        analyze_links github resume links
          (AList.update ''linkedin'' \<lparr>pl_subject = link, pl_score = 0.7\<rparr> acc)
      else if str_in ''resume'' (lower link) \<or> suffix ''.pdf'' link \<or> suffix ''.doc'' link
                \<or> suffix ''.docx'' link then
        (case resume link of
           Inl e \<Rightarrow> Inl e
         | Inr response \<Rightarrow>
             analyze_links github resume links
               (if success response
                then AList.update ''resume''
                       \<lparr>pl_subject = link,
                        pl_score = calculate_resume_score (result response)\<rparr> acc
                else acc))
      else analyze_links github resume links acc)"

definition identify_portfolio_strengths :: "(string \<times> platform_analysis) list \<Rightarrow> string list" where
  "identify_portfolio_strengths pa =
     concat (map (\<lambda>(platform, analysis).
       if platform = ''github'' \<and> pl_score analysis \<ge> 0.7
         then [''Strong GitHub presence with active repositories'']
       else if platform = ''resume'' \<and> pl_score analysis \<ge> 0.7
         then [''Well-structured resume with relevant experience'']
       else if platform = ''linkedin'' \<and> pl_score analysis \<ge> 0.7
         then [''Professional LinkedIn profile'']
       else []) pa)"

definition identify_portfolio_weaknesses :: "(string \<times> platform_analysis) list \<Rightarrow> string list" where
  "identify_portfolio_weaknesses pa =
     (if pa = [] then [''No portfolio links provided'']
      else concat (map (\<lambda>(platform, analysis).
        if platform = ''github'' \<and> pl_score analysis < 0.5
          then [''Limited GitHub activity or repositories'']
        else if platform = ''resume'' \<and> pl_score analysis < 0.5
          then [''Resume could be more comprehensive'']
        else if platform = ''linkedin'' \<and> pl_score analysis < 0.5
          then [''LinkedIn profile needs improvement'']
        else []) pa))"

definition analyze_portfolio ::
  "AnalysisState \<Rightarrow> (string \<Rightarrow> string + github_result tool_response) \<Rightarrow>
   (string \<Rightarrow> string + resume_result tool_response) \<Rightarrow> AnalysisState" where
  "analyze_portfolio state github resume =
     (let portfolio_links_v = dict_get (portfolio_links (candidate_profile state)) []
      in case analyze_links github resume portfolio_links_v [] of
           Inl e \<Rightarrow> state\<lparr>error_message := e\<rparr>
         | Inr pa \<Rightarrow>
             (let portfolio_scores = map (\<lambda>(platform, analysis). pl_score analysis) pa
              in case (if portfolio_scores \<noteq> []
                       then py_truediv (sum_list portfolio_scores)
                              (of_nat (length portfolio_scores))
                       else Inr 0.0) of
                   Inl e \<Rightarrow> state\<lparr>error_message := ''division by zero''\<rparr>
                 | Inr overall_portfolio_score \<Rightarrow>
                     state\<lparr>portfolio_analysis := Some
                       \<lparr>pa_portfolio_links = portfolio_links_v,
                        pa_detailed_analysis = pa,
                        pa_overall_portfolio_score = overall_portfolio_score,
                        pa_portfolio_strengths = identify_portfolio_strengths pa,
                        pa_portfolio_weaknesses = identify_portfolio_weaknesses pa\<rparr>\<rparr>))"

subsection \<open>Final assessment\<close>

definition generate_interview_questions :: "AnalysisState \<Rightarrow> string list" where
  "generate_interview_questions state =
     (let matching_skills =
            (case skills_analysis state of None \<Rightarrow> [] | Some a \<Rightarrow> sa_matching_skills a);
          q1 = (case matching_skills of
                  [] \<Rightarrow> []
                | s # _ \<Rightarrow> [''Can you walk us through a project where you used '' @ s @ ''?'']);
          relevant_experience =
            (case experience_analysis state of None \<Rightarrow> [] | Some a \<Rightarrow> ea_relevant_experience a);
          q2 = (case relevant_experience of
                  [] \<Rightarrow> []
                | r # _ \<Rightarrow> [''Tell us about your role as ''
                             @ dict_get (we_title (re_experience r)) [] @ '' at ''
                             @ dict_get (we_company (re_experience r)) []]);
          has_github =
            (case portfolio_analysis state of
               None \<Rightarrow> False
             | Some a \<Rightarrow> map_of (pa_detailed_analysis a) ''github'' \<noteq> None);
          q3 = (if has_github
                then [''Can you explain the architecture of your most complex GitHub project?'']
                else [])
      in take 5 (q1 @ q2 @ q3 @ [''How do you prefer to work in a team environment?'',
                                  ''What are your career goals for the next 2-3 years?'']))"

definition generate_assessment_summary :: "AnalysisState \<Rightarrow> rat \<Rightarrow> string" where
  "generate_assessment_summary state overall_score =
     (if overall_score \<ge> 0.8
        then ''Excellent candidate with strong alignment to job requirements.''
      else if overall_score \<ge> 0.6
        then ''Good candidate with solid qualifications and some areas for growth.''
      else if overall_score \<ge> 0.4
        then ''Moderate candidate with potential but significant gaps to address.''
      else ''Candidate may not be the best fit for this position.'')"

definition generate_final_assessment :: "AnalysisState \<Rightarrow> AnalysisState" where
  "generate_final_assessment state =
     (let skill_score =
            (case skills_analysis state of None \<Rightarrow> 0.0 | Some a \<Rightarrow> sa_overall_skill_score a);
          experience_score =
            (case experience_analysis state of None \<Rightarrow> 0.0 | Some a \<Rightarrow> ea_experience_fit_score a);
          portfolio_score =
            (case portfolio_analysis state of
               None \<Rightarrow> 0.0 | Some a \<Rightarrow> pa_overall_portfolio_score a);
          cultural_score =
            (case cultural_fit_analysis state of None \<Rightarrow> 0.0 | Some a \<Rightarrow> cf_cultural_fit_score a);
          overall_score =
            skill_score * 0.35 + experience_score * 0.25 + portfolio_score * 0.25
              + cultural_score * 0.15;
          missing_skills_v =
            (case skills_analysis state of None \<Rightarrow> [] | Some a \<Rightarrow> sa_missing_skills a);
          below = (case experience_analysis state of
                     None \<Rightarrow> False
                   | Some a \<Rightarrow> ea_experience_assessment a = ''below_required'');
          portfolio_weaknesses =
            (case portfolio_analysis state of None \<Rightarrow> [] | Some a \<Rightarrow> pa_portfolio_weaknesses a);
          recommendations =
            (if missing_skills_v \<noteq> []
             then [''Consider developing skills in: '' @ join '', '' (take 3 missing_skills_v)]
             else [])
            @ (if below then [''Consider gaining more relevant experience''] else [])
            @ take 2 portfolio_weaknesses;
          risk_factors =
            (if missing_skills_v \<noteq> []
             then [''Missing key skills: '' @ join '', '' (take 3 missing_skills_v)]
             else [])
            @ (if below then [''Below required experience level''] else [])
      in state\<lparr>analysis_results := Some
           \<lparr>ar_overall_score = overall_score,
            ar_skill_score = skill_score,
            ar_experience_score = experience_score,
            ar_portfolio_score = portfolio_score,
            ar_cultural_score = cultural_score,
            ar_recommendations = recommendations,
            ar_risk_factors = risk_factors,
            ar_interview_questions = generate_interview_questions state,
            ar_assessment_summary = generate_assessment_summary state overall_score\<rparr>,
          is_complete := True\<rparr>)"

text \<open>
  \<^verbatim>\<open>CandidateAnalyzer.load_candidate_profile\<close>. \<^verbatim>\<open>create_candidate_analysis_graph\<close> orders
  the stages \<^verbatim>\<open>load_profile\<close>, \<^verbatim>\<open>analyze_skills\<close>, \<^verbatim>\<open>analyze_experience\<close>,
  \<^verbatim>\<open>analyze_portfolio\<close>, \<^verbatim>\<open>assess_cultural_fit\<close>, \<^verbatim>\<open>generate_assessment\<close>; as for the job
  matching, the compiled graph is not embedded.
\<close>

definition analysis_load_candidate_profile ::
  "AnalysisState \<Rightarrow> string + profile option \<Rightarrow> AnalysisState" where
  "analysis_load_candidate_profile state fetched =
     (case fetched of
        Inl e \<Rightarrow> state\<lparr>error_message := e\<rparr>
      | Inr None \<Rightarrow> state\<lparr>error_message := ''Candidate profile not found''\<rparr>
      | Inr (Some md) \<Rightarrow> state\<lparr>candidate_profile := md\<rparr>)"

section \<open>Agent-to-agent protocol (\<^verbatim>\<open>common/a2a_protocol.py\<close>)\<close>

text \<open>
  An envelope arrives from the transport as a \<^verbatim>\<open>Dict[str, Any]\<close> of decoded JSON, and the
  dataclass \<^verbatim>\<open>Message\<close> does not check the types of its fields: a value of type \<^verbatim>\<open>Any\<close>
  is a \<open>pyval\<close>, a dictionary an association list in insertion order.
\<close>

datatype pyval =
    PNone
  | PBool bool
  | PInt int
  | PFloat rat
  | PStr string
  | PList "pyval list"
  | PDict "(string \<times> pyval) list"

type_synonym pydict = "(string \<times> pyval) list"

text \<open>The truth value of an object, as \<^verbatim>\<open>if x\<close> and \<^verbatim>\<open>x and y\<close> read it.\<close>

fun truthy :: "pyval \<Rightarrow> bool" where
  "truthy PNone = False"
| "truthy (PBool b) = b"
| "truthy (PInt i) = (i \<noteq> 0)"
| "truthy (PFloat r) = (r \<noteq> 0)"
| "truthy (PStr s) = (s \<noteq> [])"
| "truthy (PList xs) = (xs \<noteq> [])"
| "truthy (PDict kvs) = (kvs \<noteq> [])"

datatype MessageType =
    JOB_CREATED | JOB_UPDATED | JOB_DELETED
  | CANDIDATE_CREATED | CANDIDATE_UPDATED | CANDIDATE_DELETED
  | APPLICATION_CREATED | APPLICATION_UPDATED | APPLICATION_DELETED
  | MATCH_REQUEST | MATCH_RESPONSE | MATCH_FOUND
  | AGENT_HEARTBEAT | AGENT_STATUS | AGENT_ERROR

text \<open>\<^verbatim>\<open>member.value\<close>.\<close>

fun MessageType_value :: "MessageType \<Rightarrow> string" where
  "MessageType_value JOB_CREATED = ''job_created''"
| "MessageType_value JOB_UPDATED = ''job_updated''"
| "MessageType_value JOB_DELETED = ''job_deleted''"
| "MessageType_value CANDIDATE_CREATED = ''candidate_created''"
| "MessageType_value CANDIDATE_UPDATED = ''candidate_updated''"
| "MessageType_value CANDIDATE_DELETED = ''candidate_deleted''"
| "MessageType_value APPLICATION_CREATED = ''application_created''"
| "MessageType_value APPLICATION_UPDATED = ''application_updated''"
| "MessageType_value APPLICATION_DELETED = ''application_deleted''"
| "MessageType_value MATCH_REQUEST = ''match_request''"
| "MessageType_value MATCH_RESPONSE = ''match_response''"
| "MessageType_value MATCH_FOUND = ''match_found''"
| "MessageType_value AGENT_HEARTBEAT = ''agent_heartbeat''"
| "MessageType_value AGENT_STATUS = ''agent_status''"
| "MessageType_value AGENT_ERROR = ''agent_error''"

definition MessageType_members :: "MessageType list" where
  "MessageType_members =
     [JOB_CREATED, JOB_UPDATED, JOB_DELETED, CANDIDATE_CREATED, CANDIDATE_UPDATED,
      CANDIDATE_DELETED, APPLICATION_CREATED, APPLICATION_UPDATED, APPLICATION_DELETED,
      MATCH_REQUEST, MATCH_RESPONSE, MATCH_FOUND, AGENT_HEARTBEAT, AGENT_STATUS, AGENT_ERROR]"

text \<open>\<^verbatim>\<open>MessageType(v)\<close>: the member whose value is \<open>v\<close>; \<open>None\<close> where Python raises
  \<^verbatim>\<open>ValueError\<close>.\<close>

definition MessageType_of_value :: "pyval \<Rightarrow> MessageType option" where
  "MessageType_of_value v =
     (case v of
        PStr s \<Rightarrow> find (\<lambda>t. MessageType_value t = s) MessageType_members
      | _ \<Rightarrow> None)"

subsection \<open>Timestamps\<close>

text \<open>
  A \<^verbatim>\<open>datetime\<close>: the seven fields of date and time, and \<open>utcoffset\<close>, which is \<open>None\<close>
  for a naive value (as \<^verbatim>\<open>datetime.utcnow()\<close> makes it) and the offset from UTC in
  microseconds for an aware one. \<open>valid_datetime\<close> is the range check of the constructors
  of \<^verbatim>\<open>datetime\<close> and \<^verbatim>\<open>timezone\<close>. \<open>isoformat\<close> is \<^verbatim>\<open>datetime.isoformat()\<close>:
  \<^verbatim>\<open>YYYY-MM-DDTHH:MM:SS\<close>, then \<^verbatim>\<open>.ffffff\<close> when the microsecond is not zero, then for an
  aware value the offset \<^verbatim>\<open>+HH:MM\<close>, with \<^verbatim>\<open>:SS\<close> and \<^verbatim>\<open>.ffffff\<close> when the offset has them.
\<close>

record datetime =
  year :: nat
  month :: nat
  day :: nat
  hour :: nat
  minute :: nat
  second :: nat
  microsecond :: nat
  utcoffset :: "int option"

definition is_leap :: "nat \<Rightarrow> bool" where
  "is_leap y = (y mod 4 = 0 \<and> (y mod 100 \<noteq> 0 \<or> y mod 400 = 0))"

definition days_in_month :: "nat \<Rightarrow> nat \<Rightarrow> nat" where
  "days_in_month y m =
     (if m = 2 then (if is_leap y then 29 else 28)
      else if m = 4 \<or> m = 6 \<or> m = 9 \<or> m = 11 then 30 else 31)"

definition valid_datetime :: "datetime \<Rightarrow> bool" where
  "valid_datetime d =
     (1 \<le> year d \<and> year d \<le> 9999 \<and> 1 \<le> month d \<and> month d \<le> 12 \<and>
      1 \<le> day d \<and> day d \<le> days_in_month (year d) (month d) \<and>
      hour d < 24 \<and> minute d < 60 \<and> second d < 60 \<and> microsecond d < 1000000 \<and>
      (case utcoffset d of
         None \<Rightarrow> True
       | Some off \<Rightarrow> - 86400000000 < off \<and> off < 86400000000))"

text \<open>\<^verbatim>\<open>"%0wd" % n\<close> for \<open>n < 10 ^ w\<close>.\<close>

fun zero_pad :: "nat \<Rightarrow> nat \<Rightarrow> string" where
  "zero_pad 0 n = []"
| "zero_pad (Suc w) n = zero_pad w (n div 10) @ [char_of (48 + n mod 10)]"

text \<open>\<^verbatim>\<open>_format_offset\<close>: sign, hours and minutes; seconds when the rest is not zero;
  microseconds when they are not zero.\<close>

definition format_offset :: "int \<Rightarrow> string" where
  "format_offset off =
     (let a = nat \<bar>off\<bar>;
          hh = a div 3600000000; r = a mod 3600000000;
          mm = r div 60000000; ss = r mod 60000000
      in (if off < 0 then ''-'' else ''+'') @ zero_pad 2 hh @ '':'' @ zero_pad 2 mm
           @ (if ss \<noteq> 0
              then '':'' @ zero_pad 2 (ss div 1000000)
                     @ (if ss mod 1000000 \<noteq> 0 then ''.'' @ zero_pad 6 (ss mod 1000000) else [])
              else []))"

definition isoformat :: "datetime \<Rightarrow> string" where
  "isoformat d =
     zero_pad 4 (year d) @ ''-'' @ zero_pad 2 (month d) @ ''-'' @ zero_pad 2 (day d) @ ''T''
       @ zero_pad 2 (hour d) @ '':'' @ zero_pad 2 (minute d) @ '':'' @ zero_pad 2 (second d)
       @ (if microsecond d = 0 then [] else ''.'' @ zero_pad 6 (microsecond d))
       @ (case utcoffset d of None \<Rightarrow> [] | Some off \<Rightarrow> format_offset off)"

text \<open>
  \<^verbatim>\<open>datetime.fromisoformat\<close> belongs to the standard library, and which strings it reads
  depends on the version of Python: every version reads what \<open>isoformat\<close> writes, later
  versions read further forms (a space for the \<^verbatim>\<open>T\<close>, \<^verbatim>\<open>Z\<close>, shorter fractions). The
  decoder therefore takes the parser as its argument \<open>fromisoformat\<close>: \<open>None\<close> where the
  parser raises \<^verbatim>\<open>ValueError\<close>. \<open>inverts_isoformat\<close> is the documented contract of the
  parser, that it is the inverse of \<open>isoformat\<close>.

  \<open>read_isoformat\<close> is a parser that meets the contract: it reads exactly the strings
  that \<open>isoformat\<close> writes.
\<close>

definition inverts_isoformat :: "(string \<Rightarrow> datetime option) \<Rightarrow> bool" where
  "inverts_isoformat fromisoformat =
     (\<forall>d. valid_datetime d \<longrightarrow> fromisoformat (isoformat d) = Some d)"

definition parse_digits :: "nat \<Rightarrow> string \<Rightarrow> nat option" where
  "parse_digits w s =
     (if length s = w \<and> list_all is_digit s then Some (int_of_digits s) else None)"

text \<open>The optional \<^verbatim>\<open>:SS\<close> and \<^verbatim>\<open>.ffffff\<close> at the end of an offset, in microseconds.\<close>

definition read_offset_seconds :: "string \<Rightarrow> nat option" where
  "read_offset_seconds t =
     (if t = [] then Some 0
      else if take 1 t = '':'' then
        (case parse_digits 2 (take 2 (drop 1 t)) of
           None \<Rightarrow> None
         | Some ss \<Rightarrow>
             if drop 3 t = [] then Some (ss * 1000000)
             else if take 1 (drop 3 t) = ''.'' then
               (case parse_digits 6 (drop 4 t) of
                  None \<Rightarrow> None
                | Some us \<Rightarrow> Some (ss * 1000000 + us))
             else None)
      else None)"

text \<open>An offset \<^verbatim>\<open>+HH:MM[:SS[.ffffff]]\<close> or \<^verbatim>\<open>-HH:MM[:SS[.ffffff]]\<close>, in microseconds.\<close>

definition read_offset :: "string \<Rightarrow> int option" where
  "read_offset t =
     (if take 1 t = ''+'' \<or> take 1 t = ''-'' then
        (case (parse_digits 2 (take 2 (drop 1 t)), parse_digits 2 (take 2 (drop 4 t)),
               read_offset_seconds (drop 6 t)) of
           (Some hh, Some mm, Some ss) \<Rightarrow>
             if take 1 (drop 3 t) = '':'' \<and> mm < 60 \<and> ss < 60000000 then
               (let a = int (hh * 3600000000 + mm * 60000000 + ss)
                in Some (if take 1 t = ''-'' then - a else a))
             else None
         | _ \<Rightarrow> None)
      else None)"

definition read_isoformat :: "string \<Rightarrow> datetime option" where
  "read_isoformat s =
     (let s1 = drop 4 s; s2 = drop 3 s1; s3 = drop 3 s2; s4 = drop 3 s3; s5 = drop 3 s4;
          s6 = drop 3 s5;
          s7 = (if take 1 s6 = ''.'' then drop 7 s6 else s6)
      in if take 1 s1 = ''-'' \<and> take 1 s2 = ''-'' \<and> take 1 s3 = ''T'' \<and> take 1 s4 = '':''
            \<and> take 1 s5 = '':''
         then
           (case (parse_digits 4 (take 4 s), parse_digits 2 (take 2 (drop 1 s1)),
                  parse_digits 2 (take 2 (drop 1 s2)), parse_digits 2 (take 2 (drop 1 s3)),
                  parse_digits 2 (take 2 (drop 1 s4)), parse_digits 2 (take 2 (drop 1 s5)),
                  if take 1 s6 = ''.'' then parse_digits 6 (take 6 (drop 1 s6)) else Some 0,
                  if s7 = [] then Some None else map_option Some (read_offset s7)) of
              (Some y, Some mo, Some dd, Some h, Some mi, Some sec, Some us, Some tz) \<Rightarrow>
                (let d = \<lparr>year = y, month = mo, day = dd, hour = h, minute = mi, second = sec,
                          microsecond = us, utcoffset = tz\<rparr>
                 in if valid_datetime d then Some d else None)
            | _ \<Rightarrow> None)
         else None)"

subsection \<open>Messages\<close>

record Message =
  message_id :: pyval
  message_type :: MessageType
  sender_id :: pyval
  receiver_id :: pyval
  timestamp :: datetime
  payload :: pyval
  metadata :: pyval

text \<open>\<^verbatim>\<open>__post_init__\<close> on \<^verbatim>\<open>payload\<close> and on \<^verbatim>\<open>metadata\<close>: \<^verbatim>\<open>None\<close> becomes \<^verbatim>\<open>{}\<close>.\<close>

definition none_to_empty :: "pyval \<Rightarrow> pyval" where
  "none_to_empty v = (if v = PNone then PDict [] else v)"

text \<open>The constructor \<^verbatim>\<open>Message(...)\<close> with \<^verbatim>\<open>__post_init__\<close>; \<open>utcnow\<close> is what
  \<^verbatim>\<open>datetime.utcnow()\<close> would return.\<close>

definition Message_new ::
  "datetime \<Rightarrow> pyval \<Rightarrow> MessageType \<Rightarrow> pyval \<Rightarrow> pyval \<Rightarrow> datetime option \<Rightarrow> pyval \<Rightarrow> pyval
     \<Rightarrow> Message" where
  "Message_new utcnow mid mt sid rid ts pl md =
     \<lparr>message_id = mid, message_type = mt, sender_id = sid, receiver_id = rid,
      timestamp = (case ts of None \<Rightarrow> utcnow | Some t \<Rightarrow> t),
      payload = none_to_empty pl, metadata = none_to_empty md\<rparr>"

text \<open>\<^verbatim>\<open>asdict\<close> copies the fields in the order of their declaration; the copy of a value
  of decoded JSON is that value.\<close>

definition to_dict :: "Message \<Rightarrow> pydict" where
  "to_dict m =
     [(''message_id'', message_id m),
      (''message_type'', PStr (MessageType_value (message_type m))),
      (''sender_id'', sender_id m),
      (''receiver_id'', receiver_id m),
      (''timestamp'', PStr (isoformat (timestamp m))),
      (''payload'', payload m),
      (''metadata'', metadata m)]"

definition Message_fields :: "string list" where
  "Message_fields = [''message_id'', ''message_type'', ''sender_id'', ''receiver_id'',
                     ''timestamp'', ''payload'', ''metadata'']"

text \<open>
  \<^verbatim>\<open>from_dict\<close>: a missing \<^verbatim>\<open>message_type\<close> or \<^verbatim>\<open>timestamp\<close> is a \<^verbatim>\<open>KeyError\<close>, an unknown
  tag a \<^verbatim>\<open>ValueError\<close>, a timestamp that is no string a \<^verbatim>\<open>TypeError\<close>, one that the
  parser \<open>fromisoformat\<close> does not read a \<^verbatim>\<open>ValueError\<close>; \<^verbatim>\<open>cls(**data)\<close> raises \<^verbatim>\<open>TypeError\<close> on a key that is no field and
  on a missing \<^verbatim>\<open>message_id\<close> or \<^verbatim>\<open>sender_id\<close>.
\<close>

definition from_dict ::
  "(string \<Rightarrow> datetime option) \<Rightarrow> pydict \<Rightarrow> py_error + Message" where
  "from_dict fromisoformat data =
     (case map_of data ''message_type'' of
        None \<Rightarrow> Inl KeyError
      | Some tv \<Rightarrow>
          (case MessageType_of_value tv of
             None \<Rightarrow> Inl ValueError
           | Some mt \<Rightarrow>
               (case map_of data ''timestamp'' of
                  None \<Rightarrow> Inl KeyError
                | Some (PStr s) \<Rightarrow>
                    (case fromisoformat s of
                       None \<Rightarrow> Inl ValueError
                     | Some ts \<Rightarrow>
                         if list_ex (\<lambda>(k, v). k \<notin> set Message_fields) data then Inl TypeError
                         else
                           (case (map_of data ''message_id'', map_of data ''sender_id'') of
                              (Some mid, Some sid) \<Rightarrow>
                                Inr \<lparr>message_id = mid, message_type = mt, sender_id = sid,
                                     receiver_id = dict_get (map_of data ''receiver_id'') PNone,
                                     timestamp = ts,
                                     payload = none_to_empty
                                                 (dict_get (map_of data ''payload'') PNone),
                                     metadata = none_to_empty
                                                  (dict_get (map_of data ''metadata'') PNone)\<rparr>
                            | _ \<Rightarrow> Inl TypeError))
                | Some _ \<Rightarrow> Inl TypeError)))"

subsection \<open>Dispatch\<close>

text \<open>
  A handler is a coroutine that \<^verbatim>\<open>process_message\<close> awaits with the message. It acts on
  the world \<open>'w\<close> outside the protocol object, and it ends in one of three ways: it
  returns; it raises an exception of the class \<^verbatim>\<open>Exception\<close>, which the \<^verbatim>\<open>except Exception\<close>
  of \<^verbatim>\<open>process_message\<close> catches; or it raises one that does not derive from \<^verbatim>\<open>Exception\<close>
  (\<^verbatim>\<open>asyncio.CancelledError\<close> when the task is cancelled during the await,
  \<^verbatim>\<open>KeyboardInterrupt\<close>, \<^verbatim>\<open>SystemExit\<close>), which passes through.
\<close>

datatype handler_end = Returns | Raises string | Raises_base string

type_synonym 'w handler = "Message \<Rightarrow> 'w \<Rightarrow> 'w \<times> handler_end"

record 'w AgentToAgentProtocol =
  agent_id :: string
  message_handlers :: "MessageType \<Rightarrow> 'w handler option"

definition register_handler ::
  "'w AgentToAgentProtocol \<Rightarrow> MessageType \<Rightarrow> 'w handler \<Rightarrow> 'w AgentToAgentProtocol" where
  "register_handler self mt h = self\<lparr>message_handlers := (message_handlers self)(mt \<mapsto> h)\<rparr>"

text \<open>The three default handlers only write to the log.\<close>

definition handle_log_only :: "'w handler" where
  "handle_log_only message w = (w, Returns)"

definition AgentToAgentProtocol_init :: "string \<Rightarrow> 'w AgentToAgentProtocol" where
  "AgentToAgentProtocol_init aid =
     register_handler
       (register_handler
          (register_handler \<lparr>agent_id = aid, message_handlers = (\<lambda>t. None)\<rparr>
             AGENT_HEARTBEAT handle_log_only)
          AGENT_STATUS handle_log_only)
       AGENT_ERROR handle_log_only"

text \<open>What \<^verbatim>\<open>process_message\<close> does: how the call ends (\<open>Inr b\<close>: it returns \<open>b\<close>;
  \<open>Inl e\<close>: the exception \<open>e\<close> leaves it), the handlers it has called, and the world
  afterwards.\<close>

record 'w processed =
  handled :: "string + bool"
  invoked :: "MessageType list"
  world :: 'w

definition process_message ::
  "(string \<Rightarrow> datetime option) \<Rightarrow> 'w AgentToAgentProtocol \<Rightarrow> pydict \<Rightarrow> 'w \<Rightarrow> 'w processed" where
  "process_message fromisoformat self message_data w =
     (case from_dict fromisoformat message_data of
        Inl e \<Rightarrow> \<lparr>handled = Inr False, invoked = [], world = w\<rparr>
      | Inr message \<Rightarrow>
          if truthy (receiver_id message) \<and> receiver_id message \<noteq> PStr (agent_id self)
          then \<lparr>handled = Inr False, invoked = [], world = w\<rparr>
          else
            (case message_handlers self (message_type message) of
               None \<Rightarrow> \<lparr>handled = Inr False, invoked = [], world = w\<rparr>
             | Some handler \<Rightarrow>
                 (case handler message w of
                    (w', Returns) \<Rightarrow>
                      \<lparr>handled = Inr True, invoked = [message_type message], world = w'\<rparr>
                  | (w', Raises e) \<Rightarrow>
                      \<lparr>handled = Inr False, invoked = [message_type message], world = w'\<rparr>
                  | (w', Raises_base e) \<Rightarrow>
                      \<lparr>handled = Inl e, invoked = [message_type message], world = w'\<rparr>)))"

section \<open>Scenarios\<close>

text \<open>Scenario A: candidate skills \<^verbatim>\<open>{python, django}\<close> and four years of experience, job
  skills \<^verbatim>\<open>{python, django, aws}\<close> in the band \<^verbatim>\<open>mid\<close>, the same city on both sides and no
  salary data.\<close>

definition scenario_A_candidate :: profile where
  "scenario_A_candidate =
     empty_profile\<lparr>skills := Some [''python'', ''django''], experience_years := Some 4,
                    profile.location := Some ''Berlin''\<rparr>"

definition scenario_A_job :: profile where
  "scenario_A_job =
     empty_profile\<lparr>skills := Some [''python'', ''django'', ''aws''],
                    experience_level := Some ''mid'', profile.location := Some ''Berlin''\<rparr>"

definition scenario_A_state :: MatchingState where
  "scenario_A_state = (MatchingState_init ''candidate-1'')\<lparr>MatchingState.candidate_profile := scenario_A_candidate\<rparr>"

definition scenario_A_job_data :: job_data where
  "scenario_A_job_data = \<lparr>jd_id = ''job-1'', jd_metadata = scenario_A_job, jd_score = 0.9\<rparr>"

text \<open>Scenario C: one year of experience against the band \<^verbatim>\<open>senior\<close>.\<close>

definition scenario_C_candidate :: profile where
  "scenario_C_candidate = empty_profile\<lparr>experience_years := Some 1\<rparr>"

definition scenario_C_job :: profile where
  "scenario_C_job = empty_profile\<lparr>experience_level := Some ''senior''\<rparr>"

text \<open>The sub-scores that the state holds lie between 0 and 1.\<close>

definition sub_scores_bounded :: "AnalysisState \<Rightarrow> bool" where
  "sub_scores_bounded state =
     ((case skills_analysis state of
         None \<Rightarrow> True
       | Some a \<Rightarrow> 0 \<le> sa_overall_skill_score a \<and> sa_overall_skill_score a \<le> 1) \<and>
      (case experience_analysis state of
         None \<Rightarrow> True
       | Some a \<Rightarrow> 0 \<le> ea_experience_fit_score a \<and> ea_experience_fit_score a \<le> 1) \<and>
      (case portfolio_analysis state of
         None \<Rightarrow> True
       | Some a \<Rightarrow> 0 \<le> pa_overall_portfolio_score a \<and> pa_overall_portfolio_score a \<le> 1) \<and>
      (case cultural_fit_analysis state of
         None \<Rightarrow> True
       | Some a \<Rightarrow> 0 \<le> cf_cultural_fit_score a \<and> cf_cultural_fit_score a \<le> 1))"

text \<open>Scenario B: a job that lists no skill.\<close>

definition scenario_B_job_data :: job_data where
  "scenario_B_job_data =
     \<lparr>jd_id = ''job-2'', jd_metadata = empty_profile\<lparr>skills := Some []\<rparr>, jd_score = 0.5\<rparr>"

text \<open>An analysis in which neither the candidate nor the job carries a location.\<close>

definition no_location_state :: AnalysisState where
  "no_location_state = AnalysisState_init ''candidate-1'' empty_profile"

text \<open>Every score of a \<^verbatim>\<open>detailed_analysis\<close> lies between 0 and 1.\<close>

definition scores_in_unit :: "(string \<times> platform_analysis) list \<Rightarrow> bool" where
  "scores_in_unit pa = list_all (\<lambda>p. 0 \<le> pl_score (snd p) \<and> pl_score (snd p) \<le> 1) pa"

text \<open>A state for Scenario A whose caller has set the four weights to 0.1, 0.2, 0.3 and
  0.4 (they sum to 1).\<close>

definition scenario_A_weighted_state :: MatchingState where
  "scenario_A_weighted_state =
     scenario_A_state\<lparr>required_skills_weight := 0.1, experience_weight := 0.2,
                       location_weight := 0.3, salary_weight := 0.4\<rparr>"

text \<open>
  The ranking as the specification words it: drop the results below the minimum score,
  sort by descending score with ties in search order, truncate to the maximum count.
\<close>

definition ranking_spec :: "rat \<Rightarrow> int \<Rightarrow> JobMatch list \<Rightarrow> JobMatch list" where
  "ranking_spec min_score max_count results =
     take (nat max_count)
       (sort_reverse match_score (filter (\<lambda>m. match_score m \<ge> min_score) results))"

text \<open>Two jobs for the candidate of Scenario A: the first lists no skill, the second is
  the job of Scenario A. The caller asks for one match, of any score.\<close>

definition ranking_state :: MatchingState where
  "ranking_state =
     scenario_A_state\<lparr>available_jobs := [scenario_B_job_data, scenario_A_job_data],
                       min_match_score := 0, max_matches := 1\<rparr>"

text \<open>
  An analysis of the candidate of Scenario A, who also names a GitHub and a LinkedIn
  profile, against the job of Scenario A, after the four analysis stages; the GitHub tool
  answers with twelve repositories, thirty stars, twenty-five recent commits and three
  languages.
\<close>

definition github_answer :: "string \<Rightarrow> string + github_result tool_response" where
  "github_answer username =
     Inr \<lparr>success = True,
          result = \<lparr>repository_count = Some 12, total_stars = Some 30,
                    recent_commits = Some 25,
                    languages = Some [''Python'', ''Go'', ''Rust'']\<rparr>\<rparr>"

definition resume_answer :: "string \<Rightarrow> string + resume_result tool_response" where
  "resume_answer link = Inl ''resume parser unavailable''"

definition analysed_state :: AnalysisState where
  "analysed_state =
     assess_cultural_fit
       (analyze_portfolio
          (analyze_experience
             (analyze_skills
                ((AnalysisState_init ''candidate-1'' scenario_A_job)
                   \<lparr>AnalysisState.candidate_profile :=
                      scenario_A_candidate
                        \<lparr>portfolio_links := Some [''https://github.com/ada/'',
                                                  ''https://linkedin.com/in/ada'']\<rparr>\<rparr>)))
          github_answer resume_answer)"

text \<open>An agent \<^verbatim>\<open>A\<close> whose world counts the handler calls. Besides the default handlers
  it has a handler for match requests, which returns, one for created jobs, which raises
  an \<^verbatim>\<open>Exception\<close>, and one for created candidates, during which the task is cancelled.\<close>

definition counting_handler :: "nat handler" where
  "counting_handler message w = (Suc w, Returns)"

definition failing_handler :: "nat handler" where
  "failing_handler message w = (Suc w, Raises ''handler failed'')"

definition cancelled_handler :: "nat handler" where
  "cancelled_handler message w = (Suc w, Raises_base ''CancelledError'')"

definition agent_A :: "nat AgentToAgentProtocol" where
  "agent_A =
     register_handler
       (register_handler
          (register_handler (AgentToAgentProtocol_init ''A'') MATCH_REQUEST counting_handler)
          JOB_CREATED failing_handler)
       CANDIDATE_CREATED cancelled_handler"

definition example_time :: datetime where
  "example_time = \<lparr>year = 2024, month = 5, day = 17, hour = 9, minute = 30, second = 5,
                    microsecond = 123, utcoffset = None\<rparr>"

text \<open>The same time of day at the offset \<^verbatim>\<open>+05:30\<close>.\<close>

definition example_time_aware :: datetime where
  "example_time_aware = example_time\<lparr>utcoffset := Some 19800000000\<rparr>"

text \<open>A match request from \<^verbatim>\<open>job_finder_agent\<close>, as \<^verbatim>\<open>send_match_request\<close> builds it, to
  the receiver \<open>rid\<close>.\<close>

definition match_request_to :: "pyval \<Rightarrow> Message" where
  "match_request_to rid =
     Message_new example_time (PStr ''match_candidate-1_3'') MATCH_REQUEST
       (PStr ''job_finder_agent'') rid None
       (PDict [(''request_id'', PStr ''match_candidate-1_3''), (''job_id'', PNone),
               (''candidate_id'', PStr ''candidate-1''),
               (''criteria'', PDict [(''max_matches'', PInt 10)]),
               (''priority'', PStr ''normal'')])
       PNone"

text \<open>A broadcast of the type \<open>mt\<close>, and one that carries an aware timestamp.\<close>

definition broadcast_of :: "MessageType \<Rightarrow> Message" where
  "broadcast_of mt =
     Message_new example_time (PStr ''job_finder_agent_1715938205.000123'') mt
       (PStr ''job_finder_agent'') PNone None (PDict [(''job_id'', PStr ''job-1'')]) PNone"

definition aware_broadcast :: Message where
  "aware_broadcast =
     Message_new example_time (PStr ''m-2'') AGENT_STATUS (PStr ''job_finder_agent'') PNone
       (Some example_time_aware) (PDict [(''status'', PStr ''ready'')]) PNone"

text \<open>An envelope whose type tag is not in the tag set.\<close>

definition undecodable_envelope :: pydict where
  "undecodable_envelope =
     [(''message_id'', PStr ''m-1''), (''message_type'', PStr ''job_archived''),
      (''sender_id'', PStr ''job_finder_agent''), (''receiver_id'', PNone),
      (''timestamp'', PStr ''2024-05-17T09:30:05''), (''payload'', PDict []),
      (''metadata'', PDict [])]"

section \<open>Properties\<close>

subsection \<open>Strings and divisions\<close>

lemma str_in_Nil [simp]: "str_in [] b"
  by (cases b) simp_all

lemma str_in_refl: "str_in a a"
  by (cases a) simp_all

lemma lower_Nil [simp]: "lower [] = []"
  by (simp add: lower_def)

lemma py_truediv_Inr: "b \<noteq> 0 \<Longrightarrow> py_truediv a b = Inr (a / b)"
  by (simp add: py_truediv_def)

subsection \<open>The factors of the match score\<close>

lemma extract_min_le_max: "extract_min_experience l \<le> extract_max_experience l"
  by (simp add: extract_min_experience_def extract_max_experience_def Let_def)

lemma exp_score_bounds: "0 \<le> exp_score c j \<and> exp_score c j \<le> 1"
  using extract_min_le_max [of "dict_get (experience_level j) []"]
  by (auto simp add: exp_score_def Let_def)

lemma location_score_bounds: "0 \<le> location_score c j \<and> location_score c j \<le> 1"
  by (simp add: location_score_def Let_def)

lemma calculate_salary_match_bounds:
  "0 \<le> calculate_salary_match a b \<and> calculate_salary_match a b \<le> 1"
  by (simp add: calculate_salary_match_def Let_def py_truediv_def split: sum.splits)

lemma match_score_bounds:
  "0 \<le> calculate_match_score c j sm ms \<and> calculate_match_score c j sm ms \<le> 1"
  by (simp add: calculate_match_score_def Let_def split: sum.splits)

lemma length_matching_skills:
  "length (matching_skills_of c j)
     = card (set (dict_get (skills c) []) \<inter> set (dict_get (skills j) []))"
proof -
  have "distinct (matching_skills_of c j)"
    by (simp add: matching_skills_of_def)
  moreover have "set (matching_skills_of c j)
      = set (dict_get (skills c) []) \<inter> set (dict_get (skills j) [])"
    by (auto simp add: matching_skills_of_def)
  ultimately show ?thesis
    by (metis distinct_card)
qed

lemma skills_score_value:
  "skills_score j (matching_skills_of c j) =
     Inr (if set (dict_get (skills j) []) = {} then 0
          else of_nat (card (set (dict_get (skills c) []) \<inter> set (dict_get (skills j) [])))
               / of_nat (card (set (dict_get (skills j) []))))"
  by (simp add: skills_score_def Let_def py_truediv_def length_matching_skills
        length_remdups_card_conv)

subsection \<open>The sub-scores of the analysis\<close>

lemma calculate_github_score_bounds:
  "0 \<le> calculate_github_score r \<and> calculate_github_score r \<le> 1"
  by (simp add: calculate_github_score_def Let_def)

lemma calculate_resume_score_bounds:
  "0 \<le> calculate_resume_score r \<and> calculate_resume_score r \<le> 1"
  by (simp add: calculate_resume_score_def Let_def)

lemma scores_in_unit_update:
  "scores_in_unit al \<Longrightarrow> 0 \<le> pl_score v \<Longrightarrow> pl_score v \<le> 1
     \<Longrightarrow> scores_in_unit (AList.update k v al)"
  by (induction al) (auto simp add: scores_in_unit_def)

lemma analyze_links_bounds:
  "scores_in_unit acc \<Longrightarrow> analyze_links github resume links acc = Inr pa \<Longrightarrow> scores_in_unit pa"
proof (induction links arbitrary: acc)
  case Nil
  then show ?case by simp
next
  case (Cons link links)
  show ?case
  proof (cases "str_in ''github.com'' link")
    case True
    with Cons.prems obtain response where
      r: "github (github_username link) = Inr response" and
      rest: "analyze_links github resume links
               (if success response
                then AList.update ''github''
                       \<lparr>pl_subject = github_username link,
                        pl_score = calculate_github_score (result response)\<rparr> acc
                else acc) = Inr pa"
      by (auto simp add: Let_def split: sum.splits)
    have "scores_in_unit (if success response
                then AList.update ''github''
                       \<lparr>pl_subject = github_username link,
                        pl_score = calculate_github_score (result response)\<rparr> acc
                else acc)"
      using Cons.prems(1) calculate_github_score_bounds
      by (simp add: scores_in_unit_update)
    from Cons.IH [OF this rest] show ?thesis .
  next
    case not_github: False
    show ?thesis
    proof (cases "str_in ''linkedin.com'' link")
      case True
      with not_github Cons.prems have
        rest: "analyze_links github resume links
                 (AList.update ''linkedin'' \<lparr>pl_subject = link, pl_score = 0.7\<rparr> acc) = Inr pa"
        by simp
      have "scores_in_unit (AList.update ''linkedin'' \<lparr>pl_subject = link, pl_score = 0.7\<rparr> acc)"
        using Cons.prems(1) by (simp add: scores_in_unit_update)
      from Cons.IH [OF this rest] show ?thesis .
    next
      case not_linkedin: False
      show ?thesis
      proof (cases "str_in ''resume'' (lower link) \<or> suffix ''.pdf'' link \<or> suffix ''.doc'' link
                \<or> suffix ''.docx'' link")
        case True
        show ?thesis
        proof (cases "resume link")
          case (Inl e)
          with True not_github not_linkedin Cons.prems show ?thesis by simp
        next
          case (Inr response)
          with True not_github not_linkedin Cons.prems have
            rest: "analyze_links github resume links
                     (if success response
                      then AList.update ''resume''
                             \<lparr>pl_subject = link,
                              pl_score = calculate_resume_score (result response)\<rparr> acc
                      else acc) = Inr pa"
            by simp
          have "scores_in_unit (if success response
                      then AList.update ''resume''
                             \<lparr>pl_subject = link,
                              pl_score = calculate_resume_score (result response)\<rparr> acc
                      else acc)"
            using Cons.prems(1) calculate_resume_score_bounds
            by (simp add: scores_in_unit_update)
          from Cons.IH [OF this rest] show ?thesis .
        qed
      next
        case False
        with not_github not_linkedin Cons.prems have
          "analyze_links github resume links acc = Inr pa" by simp
        from Cons.IH [OF Cons.prems(1) this] show ?thesis .
      qed
    qed
  qed
qed

lemma sum_list_unit:
  fixes xs :: "rat list"
  assumes "list_all (\<lambda>x. 0 \<le> x \<and> x \<le> 1) xs"
  shows "0 \<le> sum_list xs \<and> sum_list xs \<le> of_nat (length xs)"
  using assms by (induction xs) auto

lemma mean_unit:
  fixes xs :: "rat list"
  assumes "list_all (\<lambda>x. 0 \<le> x \<and> x \<le> 1) xs" and "xs \<noteq> []"
  shows "0 \<le> sum_list xs / of_nat (length xs) \<and> sum_list xs / of_nat (length xs) \<le> 1"
proof -
  have pos: "(0::rat) < of_nat (length xs)" using assms(2) by simp
  from sum_list_unit [OF assms(1)] pos show ?thesis
    by (simp add: divide_le_eq)
qed

lemma sub_scores_bounded_init: "sub_scores_bounded (AnalysisState_init cid reqs)"
  by (simp add: sub_scores_bounded_def AnalysisState_init_def)

lemma sub_scores_bounded_load:
  "sub_scores_bounded state \<Longrightarrow> sub_scores_bounded (analysis_load_candidate_profile state fetched)"
  by (simp add: sub_scores_bounded_def analysis_load_candidate_profile_def
        split: sum.splits option.splits)

lemma sub_scores_bounded_skills:
  "sub_scores_bounded state \<Longrightarrow> sub_scores_bounded (analyze_skills state)"
  by (simp add: sub_scores_bounded_def analyze_skills_def Let_def py_truediv_def
        split: sum.splits)

lemma sub_scores_bounded_experience:
  "sub_scores_bounded state \<Longrightarrow> sub_scores_bounded (analyze_experience state)"
  using extract_min_le_max [of "dict_get (experience_level (job_requirements state)) []"]
  by (auto simp add: sub_scores_bounded_def analyze_experience_def Let_def)

lemma sub_scores_bounded_portfolio:
  assumes "sub_scores_bounded state"
  shows "sub_scores_bounded (analyze_portfolio state github resume)"
proof (cases "analyze_links github resume
                (dict_get (portfolio_links (AnalysisState.candidate_profile state)) []) []")
  case (Inl e)
  with assms show ?thesis
    by (simp add: analyze_portfolio_def Let_def sub_scores_bounded_def)
next
  case (Inr pa)
  have "scores_in_unit []" by (simp add: scores_in_unit_def)
  from analyze_links_bounds [OF this Inr] have
    u: "list_all (\<lambda>x. 0 \<le> x \<and> x \<le> 1) (map (\<lambda>(platform, analysis). pl_score analysis) pa)"
    by (simp add: scores_in_unit_def list_all_iff split_beta)
  show ?thesis
  proof (cases "pa = []")
    case True
    with assms Inr show ?thesis
      by (simp add: analyze_portfolio_def Let_def sub_scores_bounded_def)
  next
    case False
    then have ne: "map (\<lambda>(platform, analysis). pl_score analysis) pa \<noteq> []" by simp
    from mean_unit [OF u ne] assms Inr False show ?thesis
      by (simp add: analyze_portfolio_def Let_def sub_scores_bounded_def py_truediv_def)
  qed
qed

lemma sub_scores_bounded_cultural:
  "sub_scores_bounded state \<Longrightarrow> sub_scores_bounded (assess_cultural_fit state)"
  by (simp add: sub_scores_bounded_def assess_cultural_fit_def Let_def)

lemma final_assessment_bounded:
  assumes "sub_scores_bounded state"
  shows "\<exists>r. analysis_results (generate_final_assessment state) = Some r \<and>
             0 \<le> ar_overall_score r \<and> ar_overall_score r \<le> 1"
  using assms
  by (auto simp add: generate_final_assessment_def Let_def sub_scores_bounded_def
        split: option.splits)

subsection \<open>The loop and the sort of the ranking\<close>

lemma collect_matches_eq:
  "collect_matches analyze state jobs acc =
     acc @ take (nat (max_matches state) - length acc)
             (filter (\<lambda>m. match_score m \<ge> min_match_score state)
                (map (analyze state) jobs))"
proof (induction jobs arbitrary: acc)
  case Nil
  show ?case by simp
next
  case (Cons jd rest)
  show ?case
  proof (cases "int (length acc) \<ge> max_matches state")
    case True
    then have "nat (max_matches state) - length acc = 0" by simp
    with True show ?thesis by simp
  next
    case False
    then obtain n where n: "nat (max_matches state) - length acc = Suc n"
      by (cases "nat (max_matches state) - length acc") auto
    then have n': "nat (max_matches state) - Suc (length acc) = n" by simp
    from False show ?thesis
      by (simp add: Let_def Cons.IH n n')
  qed
qed

lemma sort_reverse_sorted:
  "sorted_wrt (\<lambda>a b. f a \<ge> f b) (sort_reverse f xs)"
proof -
  have "sorted (map (\<lambda>x. - f x) (sort_reverse f xs))"
    by (simp add: sort_reverse_def)
  then show ?thesis
    by (simp add: sorted_map sorted_wrt_iff_nth_less)
qed

lemma sort_reverse_stable:
  "filter (\<lambda>x. f x = k) (sort_reverse f xs) = filter (\<lambda>x. f x = k) xs"
proof -
  have "filter (\<lambda>x. - f x = - k) (sort_key (\<lambda>x. - f x) xs) = filter (\<lambda>x. - f x = - k) xs"
    by (rule sort_key_stable)
  then show ?thesis by (simp add: sort_reverse_def)
qed

lemma sort_reverse_set [simp]: "set (sort_reverse f xs) = set xs"
  by (simp add: sort_reverse_def)

lemma sort_reverse_length [simp]: "length (sort_reverse f xs) = length xs"
  by (simp add: sort_reverse_def)

lemma sort_reverse_sorted_id:
  "sorted_wrt (\<lambda>a b. f a \<ge> f b) xs \<Longrightarrow> sort_reverse f xs = xs"
proof -
  assume "sorted_wrt (\<lambda>a b. f a \<ge> f b) xs"
  then have "sorted (map (\<lambda>x. - f x) xs)"
    by (simp add: sorted_map sorted_wrt_iff_nth_less)
  then show ?thesis
    unfolding sort_reverse_def by (rule sort_key_id_if_sorted)
qed

lemma process_job_matches_result:
  "(let passing = filter (\<lambda>m. match_score m \<ge> min_match_score state)
                    (map (analyze state) (available_jobs state));
        kept = take (nat (max_matches state)) passing;
        result = matches (process_job_matches analyze state)
    in result = sort_reverse match_score kept \<and>
       sorted_wrt (\<lambda>a b. match_score a \<ge> match_score b) result \<and>
       (\<forall>k. filter (\<lambda>m. match_score m = k) result = filter (\<lambda>m. match_score m = k) kept) \<and>
       (\<forall>m \<in> set result. match_score m \<ge> min_match_score state) \<and>
       int (length result) \<le> max 0 (max_matches state) \<and>
       (sorted_wrt (\<lambda>a b. match_score a \<ge> match_score b) kept \<longrightarrow> result = kept))"
proof -
  define passing where "passing = filter (\<lambda>m. match_score m \<ge> min_match_score state)
                    (map (analyze state) (available_jobs state))"
  define kept where "kept = take (nat (max_matches state)) passing"
  define result where "result = matches (process_job_matches analyze state)"
  have r: "result = sort_reverse match_score kept"
    by (simp add: result_def process_job_matches_def collect_matches_eq kept_def passing_def)
  have s: "sorted_wrt (\<lambda>a b. match_score a \<ge> match_score b) result"
    unfolding r by (rule sort_reverse_sorted)
  have st: "\<forall>k. filter (\<lambda>m. match_score m = k) result = filter (\<lambda>m. match_score m = k) kept"
    unfolding r by (simp add: sort_reverse_stable)
  have "set kept \<subseteq> set passing"
    unfolding kept_def by (rule set_take_subset)
  then have th: "\<forall>m \<in> set result. match_score m \<ge> min_match_score state"
    unfolding r passing_def by auto
  have len: "int (length result) \<le> max 0 (max_matches state)"
    unfolding r kept_def by simp
  have d: "sorted_wrt (\<lambda>a b. match_score a \<ge> match_score b) kept \<longrightarrow> result = kept"
    unfolding r by (simp add: sort_reverse_sorted_id)
  show ?thesis
    unfolding Let_def passing_def [symmetric] kept_def [symmetric] result_def [symmetric]
    by (intro conjI) (rule r, rule s, rule st, rule th, rule len, rule d)
qed

lemma first_kept_job_is_returned:
  assumes "available_jobs state = [j1, j2]" and "max_matches state = 1"
    and "min_match_score state \<le> match_score (analyze state j1)"
    and "match_score (analyze state j1) < match_score (analyze state j2)"
  shows "matches (process_job_matches analyze state) = [analyze state j1] \<and>
         ranking_spec (min_match_score state) (max_matches state)
           (map (analyze state) (available_jobs state)) = [analyze state j2]"
  using assms
  by (simp add: process_job_matches_def collect_matches_eq ranking_spec_def sort_reverse_def)

subsection \<open>The weights of the state\<close>

lemma weights_not_read:
  "analyze_job_match
     (state\<lparr>required_skills_weight := a, experience_weight := b, location_weight := c,
            salary_weight := d\<rparr>) jd = analyze_job_match state jd"
  by (simp add: analyze_job_match_def)

subsection \<open>Encoding and decoding a message\<close>

lemma MessageType_of_value_value:
  "MessageType_of_value (PStr (MessageType_value t)) = Some t"
  by (cases t) (simp_all add: MessageType_of_value_def MessageType_members_def)

lemma length_zero_pad [simp]: "length (zero_pad w n) = w"
  by (induction w arbitrary: n) simp_all

lemma is_digit_char_of: "is_digit (char_of (48 + n mod 10 :: nat))"
proof -
  have "n mod 10 < 10" by simp
  then have "(48 + n mod 10) mod 256 = 48 + n mod 10" by simp
  then show ?thesis by (simp add: is_digit_def)
qed

lemma digits_zero_pad: "list_all is_digit (zero_pad w n)"
  by (induction w arbitrary: n) (simp_all add: is_digit_char_of)

lemma int_of_digits_snoc:
  "int_of_digits (s @ [c]) = 10 * int_of_digits s + ((of_char c :: nat) - 48)"
  by (simp add: int_of_digits_def)

lemma int_of_digits_zero_pad: "int_of_digits (zero_pad w n) = n mod 10 ^ w"
proof (induction w arbitrary: n)
  case 0
  show ?case by (simp add: int_of_digits_def)
next
  case (Suc w)
  have "n mod 10 < 10" by simp
  then have c: "(48 + n mod 10) mod 256 = 48 + n mod 10" by simp
  have "int_of_digits (zero_pad (Suc w) n) = 10 * (n div 10 mod 10 ^ w) + n mod 10"
    by (simp add: int_of_digits_snoc Suc.IH c)
  also have "\<dots> = n mod (10 * 10 ^ w)"
    by (simp add: mod_mult2_eq)
  finally show ?case by simp
qed

lemma parse_digits_zero_pad: "n < 10 ^ w \<Longrightarrow> parse_digits w (zero_pad w n) = Some n"
  by (simp add: parse_digits_def digits_zero_pad int_of_digits_zero_pad)

lemma read_offset_seconds_format:
  assumes "ss < 60000000"
  shows "read_offset_seconds
           (if ss \<noteq> 0
            then '':'' @ zero_pad 2 (ss div 1000000)
                   @ (if ss mod 1000000 \<noteq> 0 then ''.'' @ zero_pad 6 (ss mod 1000000) else [])
            else []) = Some ss"
proof (cases "ss = 0")
  case True
  then show ?thesis by (simp add: read_offset_seconds_def)
next
  case False
  define S where "S = zero_pad 2 (ss div 1000000)"
  define U where "U = zero_pad 6 (ss mod 1000000)"
  have len: "length S = 2" "length U = 6" by (simp_all add: S_def U_def)
  from assms have "ss div 1000000 < 10 ^ 2" by simp
  then have pS: "parse_digits 2 S = Some (ss div 1000000)"
    unfolding S_def by (rule parse_digits_zero_pad)
  have "ss mod 1000000 < 10 ^ 6" by simp
  then have pU: "parse_digits 6 U = Some (ss mod 1000000)"
    unfolding U_def by (rule parse_digits_zero_pad)
  have recon: "ss div 1000000 * 1000000 + ss mod 1000000 = ss" by simp
  show ?thesis
  proof (cases "ss mod 1000000 = 0")
    case True
    with recon have r: "ss div 1000000 * 1000000 = ss" by simp
    from False True show ?thesis
      using len pS r
      by (simp add: read_offset_seconds_def S_def [symmetric])
  next
    case nz: False
    from False nz show ?thesis
      using len pS pU recon
      by (simp add: read_offset_seconds_def S_def [symmetric] U_def [symmetric])
  qed
qed

lemma read_offset_format:
  assumes "- 86400000000 < off" and "off < 86400000000"
  shows "read_offset (format_offset off) = Some off"
proof -
  define a where "a = nat \<bar>off\<bar>"
  define hh where "hh = a div 3600000000"
  define r where "r = a mod 3600000000"
  define mm where "mm = r div 60000000"
  define ss where "ss = r mod 60000000"
  define H where "H = zero_pad 2 hh"
  define M where "M = zero_pad 2 mm"
  define T where "T = (if ss \<noteq> 0
            then '':'' @ zero_pad 2 (ss div 1000000)
                   @ (if ss mod 1000000 \<noteq> 0 then ''.'' @ zero_pad 6 (ss mod 1000000) else [])
            else [])"
  define sg where "sg = (if off < 0 then ''-'' else ''+'')"
  have f: "format_offset off = sg @ H @ '':'' @ M @ T"
    by (simp add: format_offset_def Let_def a_def hh_def r_def mm_def ss_def H_def M_def T_def
          sg_def)
  have len: "length H = 2" "length M = 2" "length sg = 1"
    by (simp_all add: H_def M_def sg_def)
  from assms have a: "a < 86400000000" unfolding a_def by simp
  then have hh: "hh < 24" unfolding hh_def by simp
  have r: "r < 3600000000" unfolding r_def by simp
  then have mm: "mm < 60" unfolding mm_def by simp
  have ss: "ss < 60000000" unfolding ss_def by simp
  from hh have "hh < 10 ^ 2" by simp
  then have pH: "parse_digits 2 H = Some hh"
    unfolding H_def by (rule parse_digits_zero_pad)
  from mm have "mm < 10 ^ 2" by simp
  then have pM: "parse_digits 2 M = Some mm"
    unfolding M_def by (rule parse_digits_zero_pad)
  have pT: "read_offset_seconds T = Some ss"
    unfolding T_def using ss by (rule read_offset_seconds_format)
  have "a = 3600000000 * hh + r"
    unfolding hh_def r_def by simp
  moreover have "r = 60000000 * mm + ss"
    unfolding mm_def ss_def by simp
  ultimately have recon: "hh * 3600000000 + mm * 60000000 + ss = a" by simp
  have t1: "take 1 (sg @ H @ '':'' @ M @ T) = sg"
    and d1: "take 2 (drop 1 (sg @ H @ '':'' @ M @ T)) = H"
    and d3: "take 1 (drop 3 (sg @ H @ '':'' @ M @ T)) = '':''"
    and d4: "take 2 (drop 4 (sg @ H @ '':'' @ M @ T)) = M"
    and d6: "drop 6 (sg @ H @ '':'' @ M @ T) = T"
    using len by simp_all
  have sgn: "(sg = ''+'' \<or> sg = ''-'')" and neg: "(sg = ''-'') = (off < 0)"
    by (simp_all add: sg_def)
  have val: "(if off < 0 then - int a else int a) = off"
    unfolding a_def by simp
  have "int (hh * 3600000000 + mm * 60000000 + ss) = int a"
    using recon by simp
  then have recon_int: "int hh * 3600000000 + int mm * 60000000 + int ss = int a"
    by simp
  show ?thesis
    unfolding f read_offset_def t1 d1 d3 d4 d6 pH pM pT Let_def
    using sgn neg mm ss val recon_int by auto
qed

lemma format_offset_Cons: "format_offset off \<noteq> [] \<and> take 1 (format_offset off) \<noteq> ''.''"
  by (simp add: format_offset_def Let_def)

lemma read_isoformat_isoformat:
  assumes "valid_datetime d"
  shows "read_isoformat (isoformat d) = Some d"
proof -
  define Y where "Y = zero_pad 4 (year d)"
  define Mo where "Mo = zero_pad 2 (month d)"
  define D where "D = zero_pad 2 (day d)"
  define H where "H = zero_pad 2 (hour d)"
  define Mi where "Mi = zero_pad 2 (minute d)"
  define S where "S = zero_pad 2 (second d)"
  define U where "U = zero_pad 6 (microsecond d)"
  define Z where "Z = (case utcoffset d of None \<Rightarrow> [] | Some off \<Rightarrow> format_offset off)"
  define s6 where "s6 = (if microsecond d = 0 then [] else ''.'' @ U) @ Z"
  have len: "length Y = 4" "length Mo = 2" "length D = 2" "length H = 2" "length Mi = 2"
    "length S = 2" "length U = 6"
    by (simp_all add: Y_def Mo_def D_def H_def Mi_def S_def U_def)
  define s5 where "s5 = '':'' @ S @ s6"
  define s4 where "s4 = '':'' @ Mi @ s5"
  define s3 where "s3 = ''T'' @ H @ s4"
  define s2 where "s2 = ''-'' @ D @ s3"
  define s1 where "s1 = ''-'' @ Mo @ s2"
  have iso: "isoformat d = Y @ s1"
    by (simp add: isoformat_def Y_def Mo_def D_def H_def Mi_def S_def U_def Z_def s1_def s2_def
          s3_def s4_def s5_def s6_def)
  have t0: "take 4 (Y @ s1) = Y" and d0: "drop 4 (Y @ s1) = s1"
    using len by simp_all
  have t1: "take 2 (drop 1 s1) = Mo" and d1: "drop 3 s1 = s2" and h1: "take 1 s1 = ''-''"
    using len by (simp_all add: s1_def)
  have t2: "take 2 (drop 1 s2) = D" and d2: "drop 3 s2 = s3" and h2: "take 1 s2 = ''-''"
    using len by (simp_all add: s2_def)
  have t3: "take 2 (drop 1 s3) = H" and d3: "drop 3 s3 = s4" and h3: "take 1 s3 = ''T''"
    using len by (simp_all add: s3_def)
  have t4: "take 2 (drop 1 s4) = Mi" and d4: "drop 3 s4 = s5" and h4: "take 1 s4 = '':''"
    using len by (simp_all add: s4_def)
  have t5: "take 2 (drop 1 s5) = S" and d5: "drop 3 s5 = s6" and h5: "take 1 s5 = '':''"
    using len by (simp_all add: s5_def)
  from assms have r: "year d < 10 ^ 4" "month d < 10 ^ 2" "day d < 10 ^ 2" "hour d < 10 ^ 2"
    "minute d < 10 ^ 2" "second d < 10 ^ 2" "microsecond d < 10 ^ 6"
    by (auto simp add: valid_datetime_def days_in_month_def split: if_splits)
  have p: "parse_digits 4 Y = Some (year d)" "parse_digits 2 Mo = Some (month d)"
    "parse_digits 2 D = Some (day d)" "parse_digits 2 H = Some (hour d)"
    "parse_digits 2 Mi = Some (minute d)" "parse_digits 2 S = Some (second d)"
    "parse_digits 6 U = Some (microsecond d)"
    unfolding Y_def Mo_def D_def H_def Mi_def S_def U_def
    using r by (simp_all add: parse_digits_zero_pad)
  have Z1: "take 1 Z \<noteq> ''.''"
    using format_offset_Cons by (simp add: Z_def split: option.splits)
  have frac: "(if take 1 s6 = ''.'' then parse_digits 6 (take 6 (drop 1 s6)) else Some 0)
      = Some (microsecond d)"
    and rest: "(if take 1 s6 = ''.'' then drop 7 s6 else s6) = Z"
    using Z1 len p(7) by (auto simp add: s6_def)
  have tz: "(if Z = [] then Some None else map_option Some (read_offset Z)) = Some (utcoffset d)"
  proof (cases "utcoffset d")
    case None
    then show ?thesis by (simp add: Z_def)
  next
    case (Some off)
    with assms have "- 86400000000 < off" "off < 86400000000"
      by (simp_all add: valid_datetime_def)
    then have "read_offset (format_offset off) = Some off"
      by (rule read_offset_format)
    with Some format_offset_Cons [of off] show ?thesis
      by (simp add: Z_def)
  qed
  have e: "\<lparr>year = year d, month = month d, day = day d, hour = hour d, minute = minute d,
            second = second d, microsecond = microsecond d, utcoffset = utcoffset d\<rparr> = d"
    by (cases d) simp
  show ?thesis
    unfolding read_isoformat_def iso Let_def d0 t0 t1 d1 h1 t2 d2 h2 t3 d3 h3 t4 d4 h4 t5 d5 h5
      frac rest tz p
    using assms by (simp add: e)
qed

lemma inverts_isoformat_read: "inverts_isoformat read_isoformat"
  by (simp add: inverts_isoformat_def read_isoformat_isoformat)

lemma from_dict_to_dict:
  assumes "inverts_isoformat fromisoformat" and "valid_datetime (timestamp m)"
    and "payload m \<noteq> PNone" and "metadata m \<noteq> PNone"
  shows "from_dict fromisoformat (to_dict m) = Inr m"
proof -
  from assms(1,2) have "fromisoformat (isoformat (timestamp m)) = Some (timestamp m)"
    by (simp add: inverts_isoformat_def)
  with assms(3,4) show ?thesis
    by (simp add: from_dict_def to_dict_def MessageType_of_value_value
          Message_fields_def dict_get_def none_to_empty_def)
qed

subsection \<open>The example envelopes decode\<close>

lemma valid_example_time: "valid_datetime example_time"
  by (simp add: valid_datetime_def example_time_def days_in_month_def)

lemma valid_example_time_aware: "valid_datetime example_time_aware"
  by (simp add: valid_datetime_def example_time_aware_def example_time_def days_in_month_def)

lemma from_dict_match_request_to:
  "from_dict read_isoformat (to_dict (match_request_to rid)) = Inr (match_request_to rid)"
  by (rule from_dict_to_dict [OF inverts_isoformat_read])
     (simp_all add: match_request_to_def Message_new_def none_to_empty_def valid_example_time)

lemma from_dict_broadcast_of:
  "from_dict read_isoformat (to_dict (broadcast_of mt)) = Inr (broadcast_of mt)"
  by (rule from_dict_to_dict [OF inverts_isoformat_read])
     (simp_all add: broadcast_of_def Message_new_def none_to_empty_def valid_example_time)

section \<open>The claims\<close>

text \<open>
  Claim C8. The experience band, read without regard to case, gives the inclusive range
  of years: entry and junior 0 to 2, mid 3 to 5, senior 5 to 8, lead 8 to 12, principal
  12 to 20, and 0 to 5 for every other band. With \<open>y\<close> the years of the subject (0 when
  absent), the experience factor is 1 when \<open>y\<close> lies in the range,
  \<open>max 0 (1 - (lo - y) / 5)\<close> when \<open>y\<close> is below it and \<open>max 0 (1 - (y - hi) / 5)\<close> when
  \<open>y\<close> is above it. One year against the band senior gives the factor 1/5.
\<close>

theorem experience_factor_by_band:
  "(lower level = ''entry'' \<longrightarrow> extract_min_experience level = 0 \<and> extract_max_experience level = 2) \<and>
   (lower level = ''junior'' \<longrightarrow> extract_min_experience level = 0 \<and> extract_max_experience level = 2) \<and>
   (lower level = ''mid'' \<longrightarrow> extract_min_experience level = 3 \<and> extract_max_experience level = 5) \<and>
   (lower level = ''senior'' \<longrightarrow> extract_min_experience level = 5 \<and> extract_max_experience level = 8) \<and>
   (lower level = ''lead'' \<longrightarrow> extract_min_experience level = 8 \<and> extract_max_experience level = 12) \<and>
   (lower level = ''principal'' \<longrightarrow>
      extract_min_experience level = 12 \<and> extract_max_experience level = 20) \<and>
   (lower level \<notin> {''entry'', ''junior'', ''mid'', ''senior'', ''lead'', ''principal''} \<longrightarrow>
      extract_min_experience level = 0 \<and> extract_max_experience level = 5) \<and>
   (let y = dict_get (experience_years c) 0;
        lo = rat_of_int (extract_min_experience (dict_get (experience_level j) []));
        hi = rat_of_int (extract_max_experience (dict_get (experience_level j) []))
    in (lo \<le> y \<and> y \<le> hi \<longrightarrow> exp_score c j = 1) \<and>
       (y < lo \<longrightarrow> exp_score c j = max 0 (1 - (lo - y) / 5)) \<and>
       (hi < y \<longrightarrow> exp_score c j = max 0 (1 - (y - hi) / 5))) \<and>
   (experience_years c = Some 1 \<and> lower (dict_get (experience_level j) []) = ''senior'' \<longrightarrow>
      exp_score c j = 1 / 5)"
proof -
  have table: "(lower level = ''entry'' \<longrightarrow> extract_min_experience level = 0 \<and> extract_max_experience level = 2) \<and>
   (lower level = ''junior'' \<longrightarrow> extract_min_experience level = 0 \<and> extract_max_experience level = 2) \<and>
   (lower level = ''mid'' \<longrightarrow> extract_min_experience level = 3 \<and> extract_max_experience level = 5) \<and>
   (lower level = ''senior'' \<longrightarrow> extract_min_experience level = 5 \<and> extract_max_experience level = 8) \<and>
   (lower level = ''lead'' \<longrightarrow> extract_min_experience level = 8 \<and> extract_max_experience level = 12) \<and>
   (lower level = ''principal'' \<longrightarrow>
      extract_min_experience level = 12 \<and> extract_max_experience level = 20) \<and>
   (lower level \<notin> {''entry'', ''junior'', ''mid'', ''senior'', ''lead'', ''principal''} \<longrightarrow>
      extract_min_experience level = 0 \<and> extract_max_experience level = 5)"
    by (simp add: extract_min_experience_def extract_max_experience_def Let_def)
  have factor: "(let y = dict_get (experience_years c) 0;
        lo = rat_of_int (extract_min_experience (dict_get (experience_level j) []));
        hi = rat_of_int (extract_max_experience (dict_get (experience_level j) []))
    in (lo \<le> y \<and> y \<le> hi \<longrightarrow> exp_score c j = 1) \<and>
       (y < lo \<longrightarrow> exp_score c j = max 0 (1 - (lo - y) / 5)) \<and>
       (hi < y \<longrightarrow> exp_score c j = max 0 (1 - (y - hi) / 5)))"
    using extract_min_le_max [of "dict_get (experience_level j) []"]
    by (auto simp add: exp_score_def Let_def)
  have scenario: "experience_years c = Some 1 \<and> lower (dict_get (experience_level j) []) = ''senior'' \<longrightarrow>
      exp_score c j = 1 / 5"
    by (simp add: exp_score_def Let_def extract_min_experience_def extract_max_experience_def
          dict_get_def)
  from table factor scenario show ?thesis by blast
qed

theorem experience_factor_by_band_witness:
  "extract_min_experience ''senior'' = 5 \<and> extract_max_experience ''senior'' = 8 \<and>
   exp_score scenario_C_candidate scenario_C_job = 1 / 5"
proof -
  have l: "lower ''senior'' = ''senior''" by code_simp
  have y: "experience_years scenario_C_candidate = Some 1"
    by (simp add: scenario_C_candidate_def empty_profile_def)
  have b: "dict_get (experience_level scenario_C_job) [] = ''senior''"
    by (simp add: scenario_C_job_def empty_profile_def dict_get_def)
  show ?thesis
    using experience_factor_by_band [of "''senior''" scenario_C_candidate scenario_C_job] l y b
    by simp
qed


text \<open>
  Claim C9. For every candidate profile and every job, the skill factor computed from
  the matching skills is the number of skills common to both divided by the number of
  job skills when the job has a skill, and 0 when it has none; in both cases the division
  raises nothing (the result is an \<open>Inr\<close>). The list of missing skills holds exactly the
  job's skills that the candidate lacks, each once.
\<close>

theorem skill_factor_and_missing_skills:
  "(let m = analyze_job_match state jd;
        cs = set (dict_get (skills (MatchingState.candidate_profile state)) []);
        js = set (dict_get (skills (jd_metadata jd)) [])
    in skills_score (jd_metadata jd) (skills_match m) =
         Inr (if js = {} then 0 else of_nat (card (cs \<inter> js)) / of_nat (card js)) \<and>
       set (missing_skills m) = js - cs \<and> distinct (missing_skills m))"
proof -
  have sm: "skills_match (analyze_job_match state jd)
      = matching_skills_of (MatchingState.candidate_profile state) (jd_metadata jd)"
    by (simp add: analyze_job_match_def Let_def)
  have ms: "missing_skills (analyze_job_match state jd)
      = missing_skills_of (MatchingState.candidate_profile state) (jd_metadata jd)"
    by (simp add: analyze_job_match_def Let_def)
  have s: "set (missing_skills_of c j) = set (dict_get (skills j) []) - set (dict_get (skills c) [])"
    for c j
    by (auto simp add: missing_skills_of_def)
  have d: "distinct (missing_skills_of c j)" for c j
    by (simp add: missing_skills_of_def)
  show ?thesis
    unfolding Let_def sm ms by (simp add: skills_score_value s d)
qed

theorem skill_factor_and_missing_skills_witness:
  "skills_score (jd_metadata scenario_A_job_data)
     (skills_match (analyze_job_match scenario_A_state scenario_A_job_data)) = Inr (2 / 3) \<and>
   set (missing_skills (analyze_job_match scenario_A_state scenario_A_job_data)) = {''aws''} \<and>
   skills_score (jd_metadata scenario_B_job_data)
     (skills_match (analyze_job_match scenario_A_state scenario_B_job_data)) = Inr 0"
proof -
  have cs: "dict_get (skills (MatchingState.candidate_profile scenario_A_state)) [] = [''python'', ''django'']"
    by (simp add: scenario_A_state_def scenario_A_candidate_def empty_profile_def dict_get_def)
  have js: "dict_get (skills (jd_metadata scenario_A_job_data)) [] = [''python'', ''django'', ''aws'']"
    by (simp add: scenario_A_job_data_def scenario_A_job_def empty_profile_def dict_get_def)
  have jb: "dict_get (skills (jd_metadata scenario_B_job_data)) [] = []"
    by (simp add: scenario_B_job_data_def empty_profile_def dict_get_def)
  have i: "set [''python'', ''django''] \<inter> set [''python'', ''django'', ''aws''] = set [''python'', ''django'']"
    by auto
  have c2: "card (set [''python'', ''django'']) = 2" by simp
  have c3: "card (set [''python'', ''django'', ''aws'']) = 3" by simp
  have d: "set [''python'', ''django'', ''aws''] - set [''python'', ''django''] = {''aws''}"
    by auto
  show ?thesis
    using skill_factor_and_missing_skills [of scenario_A_state scenario_A_job_data]
      skill_factor_and_missing_skills [of scenario_A_state scenario_B_job_data]
    unfolding Let_def cs js jb i c2 c3 d by simp
qed

text \<open>
  Claim C2 (as amended). On the input of Scenario A (candidate skills python and django,
  job skills python, django and aws, band mid, four years of experience, the same
  location on both sides, no digit in either salary text) the skill factor is 2/3, the
  experience factor 1, the location factor 1, the salary factor 1/2, and the aggregate is
  \<open>0.4 * (2/3) + 0.3 * 1 + 0.2 * 1 + 0.1 * 0.5 = 49/60\<close>, which is 0.8167 to four places.
\<close>

theorem scenario_A_factors:
  assumes "skills (MatchingState.candidate_profile state) = Some [''python'', ''django'']"
    and "skills (jd_metadata jd) = Some [''python'', ''django'', ''aws'']"
    and "experience_level (jd_metadata jd) = Some ''mid''"
    and "experience_years (MatchingState.candidate_profile state) = Some 4"
    and "profile.location (MatchingState.candidate_profile state) = profile.location (jd_metadata jd)"
    and "findall_digits (dict_get (salary_expectation (MatchingState.candidate_profile state)) []) = []"
    and "findall_digits (dict_get (profile.salary_range (jd_metadata jd)) []) = []"
  shows "skills_score (jd_metadata jd) (skills_match (analyze_job_match state jd)) = Inr (2 / 3) \<and>
         exp_score (MatchingState.candidate_profile state) (jd_metadata jd) = 1 \<and>
         location_score (MatchingState.candidate_profile state) (jd_metadata jd) = 1 \<and>
         salary_score (MatchingState.candidate_profile state) (jd_metadata jd) = 1 / 2 \<and>
         match_score (analyze_job_match state jd) = 0.4 * (2 / 3) + 0.3 * 1 + 0.2 * 1 + 0.1 * 0.5 \<and>
         match_score (analyze_job_match state jd) = 49 / 60 \<and>
         \<bar>match_score (analyze_job_match state jd) - 0.8167\<bar> < 0.0001"
proof -
  let ?c = "MatchingState.candidate_profile state" and ?j = "jd_metadata jd"
  have mid: "lower ''mid'' = ''mid''" by code_simp
  have sm: "skills_match (analyze_job_match state jd) = matching_skills_of ?c ?j"
    by (simp add: analyze_job_match_def Let_def)
  have m: "matching_skills_of ?c ?j = [''python'', ''django'']"
    using assms(1,2) by (simp add: matching_skills_of_def dict_get_def)
  have s: "skills_score ?j (matching_skills_of ?c ?j) = Inr (2 / 3)"
    unfolding m using assms(2) by (simp add: skills_score_def dict_get_def py_truediv_def)
  have e: "exp_score ?c ?j = 1"
    using assms(3,4) mid
    by (simp add: exp_score_def dict_get_def extract_min_experience_def
          extract_max_experience_def Let_def)
  have l: "location_score ?c ?j = 1"
    using assms(5) by (simp add: location_score_def Let_def str_in_refl)
  have sal: "salary_score ?c ?j = 1 / 2"
    using assms(6,7) by (simp add: salary_score_def calculate_salary_match_def Let_def)
  have ms: "match_score (analyze_job_match state jd)
      = calculate_match_score ?c ?j (matching_skills_of ?c ?j) (missing_skills_of ?c ?j)"
    by (simp add: analyze_job_match_def Let_def)
  have v: "match_score (analyze_job_match state jd) = 49 / 60"
    unfolding ms by (simp add: calculate_match_score_def s e l sal Let_def)
  show ?thesis
    unfolding sm by (simp add: s e l sal v [unfolded sm])
qed

theorem scenario_A_factors_witness:
  "match_score (analyze_job_match scenario_A_state scenario_A_job_data) = 49 / 60 \<and>
   skills_score (jd_metadata scenario_A_job_data)
     (skills_match (analyze_job_match scenario_A_state scenario_A_job_data)) = Inr (2 / 3)"
proof -
  have c: "MatchingState.candidate_profile scenario_A_state = scenario_A_candidate"
    by (simp add: scenario_A_state_def)
  have j: "jd_metadata scenario_A_job_data = scenario_A_job"
    by (simp add: scenario_A_job_data_def)
  have d: "findall_digits (dict_get None []) = []"
    by (simp add: findall_digits_def dict_get_def)
  show ?thesis
    using scenario_A_factors [of scenario_A_state scenario_A_job_data]
    unfolding c j
    by (simp add: scenario_A_candidate_def scenario_A_job_def empty_profile_def d)
qed

text \<open>The aggregate of Scenario A is not 0.7167: it is 49/60, a tenth above.\<close>

theorem scenario_A_aggregate_counterexample:
  "match_score (analyze_job_match scenario_A_state scenario_A_job_data) = 49 / 60 \<and>
   \<not> \<bar>match_score (analyze_job_match scenario_A_state scenario_A_job_data) - 0.7167\<bar> < 0.05"
proof -
  have v: "match_score (analyze_job_match scenario_A_state scenario_A_job_data) = 49 / 60"
    by code_simp
  show ?thesis unfolding v by simp
qed

text \<open>
  Claim C10. When the location of the candidate or of the job is absent or empty, the
  containment test succeeds: the location factor of the match score is 1, and the
  cultural-fit assessment records the locations as compatible and adds the bonus of 0.1
  to the base 0.7 and the two other adjustments. This covers two profiles without any
  location.
\<close>

theorem location_factor_empty_location:
  assumes "dict_get (profile.location (AnalysisState.candidate_profile state)) [] = []
           \<or> dict_get (profile.location (job_requirements state)) [] = []"
  shows "location_score (AnalysisState.candidate_profile state) (job_requirements state) = 1 \<and>
         (\<exists>a. cultural_fit_analysis (assess_cultural_fit state) = Some a \<and>
              cf_location_compatibility a \<and>
              cf_cultural_fit_score a =
                min 1 (0.7 + (if cf_experience_alignment a then 0.1 else 0)
                           + (if cf_remote_preference_match a then 0.1 else 0) + 0.1))"
  using assms
  by (auto simp add: location_score_def assess_cultural_fit_def Let_def)

theorem location_factor_empty_location_witness:
  "location_score empty_profile empty_profile = 1 \<and>
   (\<exists>a. cultural_fit_analysis (assess_cultural_fit no_location_state) = Some a \<and>
        cf_location_compatibility a \<and> cf_cultural_fit_score a = 1)"
proof -
  have c: "AnalysisState.candidate_profile no_location_state = empty_profile"
    by (simp add: no_location_state_def AnalysisState_init_def)
  have j: "job_requirements no_location_state = empty_profile"
    by (simp add: no_location_state_def AnalysisState_init_def)
  have h: "dict_get (profile.location empty_profile) [] = []"
    by (simp add: empty_profile_def dict_get_def)
  have "location_score empty_profile empty_profile = 1 \<and>
     (\<exists>a. cultural_fit_analysis (assess_cultural_fit no_location_state) = Some a \<and>
          cf_location_compatibility a \<and>
          cf_cultural_fit_score a =
            min 1 (0.7 + (if cf_experience_alignment a then 0.1 else 0)
                       + (if cf_remote_preference_match a then 0.1 else 0) + 0.1))"
    using location_factor_empty_location [of no_location_state] unfolding c j using h by simp
  moreover have "cf_experience_alignment a \<and> cf_remote_preference_match a"
    if "cultural_fit_analysis (assess_cultural_fit no_location_state) = Some a" for a
    using that
    by (auto simp add: assess_cultural_fit_def Let_def c j empty_profile_def dict_get_def
          extract_min_experience_def)
  ultimately show ?thesis by auto
qed

text \<open>
  Claim C7. The state declares the four weights, but no stage reads them: the analysis of
  a job is the same whatever the four weights of the state are. The score of Scenario A
  under the caller's weights 0.1, 0.2, 0.3, 0.4 is still 49/60, the sum with the
  constants 0.4, 0.3, 0.2, 0.1, while the sum with the caller's weights is 23/30.
\<close>

theorem caller_weights_ignored:
  "analyze_job_match
     (state\<lparr>required_skills_weight := a, experience_weight := b, location_weight := c,
            salary_weight := d\<rparr>) jd = analyze_job_match state jd \<and>
   match_score (analyze_job_match scenario_A_weighted_state scenario_A_job_data) = 49 / 60 \<and>
   (case skills_score scenario_A_job
           (matching_skills_of scenario_A_candidate scenario_A_job) of
      Inl e \<Rightarrow> 0
    | Inr s \<Rightarrow>
        s * required_skills_weight scenario_A_weighted_state
        + exp_score scenario_A_candidate scenario_A_job * experience_weight scenario_A_weighted_state
        + location_score scenario_A_candidate scenario_A_job * location_weight scenario_A_weighted_state
        + salary_score scenario_A_candidate scenario_A_job * salary_weight scenario_A_weighted_state)
     = 23 / 30"
proof -
  have code: "match_score (analyze_job_match scenario_A_weighted_state scenario_A_job_data)
      = 49 / 60"
    by code_simp
  have claimed: "(case skills_score scenario_A_job
           (matching_skills_of scenario_A_candidate scenario_A_job) of
      Inl e \<Rightarrow> 0
    | Inr s \<Rightarrow>
        s * required_skills_weight scenario_A_weighted_state
        + exp_score scenario_A_candidate scenario_A_job * experience_weight scenario_A_weighted_state
        + location_score scenario_A_candidate scenario_A_job * location_weight scenario_A_weighted_state
        + salary_score scenario_A_candidate scenario_A_job * salary_weight scenario_A_weighted_state)
     = 23 / 30"
    by code_simp
  show ?thesis
    by (intro conjI) (rule weights_not_read, rule code, rule claimed)
qed

text \<open>
  Claim C1. For every pair of profiles and every pair of skill lists handed to it, the
  match score lies between 0 and 1. For every analysis state whose sub-scores lie between
  0 and 1, the final assessment produces a result whose overall score is
  \<open>0.35 * skill + 0.25 * experience + 0.25 * portfolio + 0.15 * cultural\<close>, with each
  sub-score read from the state (0 where its analysis is missing), and lies between 0
  and 1. The four analysis stages keep the hypothesis: applied to a state whose
  sub-scores lie between 0 and 1, as the initial state is, each returns such a state.
\<close>

theorem scores_bounded:
  "0 \<le> calculate_match_score c j sm ms \<and> calculate_match_score c j sm ms \<le> 1 \<and>
   (sub_scores_bounded state \<longrightarrow>
      (\<exists>r. analysis_results (generate_final_assessment state) = Some r \<and>
           ar_skill_score r =
             (case skills_analysis state of None \<Rightarrow> 0 | Some a \<Rightarrow> sa_overall_skill_score a) \<and>
           ar_experience_score r =
             (case experience_analysis state of
                None \<Rightarrow> 0 | Some a \<Rightarrow> ea_experience_fit_score a) \<and>
           ar_portfolio_score r =
             (case portfolio_analysis state of
                None \<Rightarrow> 0 | Some a \<Rightarrow> pa_overall_portfolio_score a) \<and>
           ar_cultural_score r =
             (case cultural_fit_analysis state of
                None \<Rightarrow> 0 | Some a \<Rightarrow> cf_cultural_fit_score a) \<and>
           ar_overall_score r =
             ar_skill_score r * 0.35 + ar_experience_score r * 0.25
               + ar_portfolio_score r * 0.25 + ar_cultural_score r * 0.15 \<and>
           0 \<le> ar_overall_score r \<and> ar_overall_score r \<le> 1)) \<and>
   (sub_scores_bounded state \<longrightarrow>
      sub_scores_bounded (analyze_skills state) \<and>
      sub_scores_bounded (analyze_experience state) \<and>
      sub_scores_bounded (analyze_portfolio state github resume) \<and>
      sub_scores_bounded (assess_cultural_fit state)) \<and>
   sub_scores_bounded (AnalysisState_init cid reqs)"
proof -
  have final: "sub_scores_bounded state \<longrightarrow>
      (\<exists>r. analysis_results (generate_final_assessment state) = Some r \<and>
           ar_skill_score r =
             (case skills_analysis state of None \<Rightarrow> 0 | Some a \<Rightarrow> sa_overall_skill_score a) \<and>
           ar_experience_score r =
             (case experience_analysis state of
                None \<Rightarrow> 0 | Some a \<Rightarrow> ea_experience_fit_score a) \<and>
           ar_portfolio_score r =
             (case portfolio_analysis state of
                None \<Rightarrow> 0 | Some a \<Rightarrow> pa_overall_portfolio_score a) \<and>
           ar_cultural_score r =
             (case cultural_fit_analysis state of
                None \<Rightarrow> 0 | Some a \<Rightarrow> cf_cultural_fit_score a) \<and>
           ar_overall_score r =
             ar_skill_score r * 0.35 + ar_experience_score r * 0.25
               + ar_portfolio_score r * 0.25 + ar_cultural_score r * 0.15 \<and>
           0 \<le> ar_overall_score r \<and> ar_overall_score r \<le> 1)"
    by (auto simp add: generate_final_assessment_def Let_def sub_scores_bounded_def
          split: option.splits)
  have stages: "sub_scores_bounded state \<longrightarrow>
      sub_scores_bounded (analyze_skills state) \<and>
      sub_scores_bounded (analyze_experience state) \<and>
      sub_scores_bounded (analyze_portfolio state github resume) \<and>
      sub_scores_bounded (assess_cultural_fit state)"
    by (simp add: sub_scores_bounded_skills sub_scores_bounded_experience
          sub_scores_bounded_portfolio sub_scores_bounded_cultural)
  from match_score_bounds [of c j sm ms] final stages sub_scores_bounded_init [of cid reqs]
  show ?thesis by (intro conjI) simp_all
qed

theorem scores_bounded_witness:
  "sub_scores_bounded analysed_state \<and>
   (\<exists>r. analysis_results (generate_final_assessment analysed_state) = Some r \<and>
        ar_skill_score r = 4 / 5 \<and> ar_experience_score r = 1 \<and>
        ar_portfolio_score r = 31 / 40 \<and> ar_cultural_score r = 1 \<and>
        ar_overall_score r = 699 / 800 \<and>
        0 \<le> ar_overall_score r \<and> ar_overall_score r \<le> 1)"
proof -
  let ?s0 = "(AnalysisState_init ''candidate-1'' scenario_A_job)
               \<lparr>AnalysisState.candidate_profile :=
                  scenario_A_candidate
                    \<lparr>portfolio_links := Some [''https://github.com/ada/'',
                                              ''https://linkedin.com/in/ada'']\<rparr>\<rparr>"
  note t = scores_bounded [of scenario_A_candidate scenario_A_job "[]" "[]" _ github_answer
      resume_answer "''candidate-1''" scenario_A_job]
  have h0: "sub_scores_bounded ?s0"
    by (simp add: sub_scores_bounded_def AnalysisState_init_def)
  have h1: "sub_scores_bounded (analyze_skills ?s0)"
    using t [of ?s0] h0 by blast
  have h2: "sub_scores_bounded (analyze_experience (analyze_skills ?s0))"
    using t [of "analyze_skills ?s0"] h1 by blast
  have h3: "sub_scores_bounded
              (analyze_portfolio (analyze_experience (analyze_skills ?s0))
                 github_answer resume_answer)"
    using t [of "analyze_experience (analyze_skills ?s0)"] h2 by blast
  have h: "sub_scores_bounded analysed_state"
    unfolding analysed_state_def
    using t [of "analyze_portfolio (analyze_experience (analyze_skills ?s0))
                   github_answer resume_answer"] h3 by blast
  have sk: "(case skills_analysis analysed_state of
               None \<Rightarrow> 0 | Some a \<Rightarrow> sa_overall_skill_score a) = 4 / 5"
    by code_simp
  have ex: "(case experience_analysis analysed_state of
               None \<Rightarrow> 0 | Some a \<Rightarrow> ea_experience_fit_score a) = 1"
    by code_simp
  have po: "(case portfolio_analysis analysed_state of
               None \<Rightarrow> 0 | Some a \<Rightarrow> pa_overall_portfolio_score a) = 31 / 40"
    by code_simp
  have cu: "(case cultural_fit_analysis analysed_state of
               None \<Rightarrow> 0 | Some a \<Rightarrow> cf_cultural_fit_score a) = 1"
    by code_simp
  from t [of analysed_state] h obtain r where
    r: "analysis_results (generate_final_assessment analysed_state) = Some r"
    and v: "ar_skill_score r =
             (case skills_analysis analysed_state of
                None \<Rightarrow> 0 | Some a \<Rightarrow> sa_overall_skill_score a)"
      "ar_experience_score r =
             (case experience_analysis analysed_state of
                None \<Rightarrow> 0 | Some a \<Rightarrow> ea_experience_fit_score a)"
      "ar_portfolio_score r =
             (case portfolio_analysis analysed_state of
                None \<Rightarrow> 0 | Some a \<Rightarrow> pa_overall_portfolio_score a)"
      "ar_cultural_score r =
             (case cultural_fit_analysis analysed_state of
                None \<Rightarrow> 0 | Some a \<Rightarrow> cf_cultural_fit_score a)"
    and o: "ar_overall_score r =
             ar_skill_score r * 0.35 + ar_experience_score r * 0.25
               + ar_portfolio_score r * 0.25 + ar_cultural_score r * 0.15"
    by blast
  from v o have "ar_skill_score r = 4 / 5" "ar_experience_score r = 1"
    "ar_portfolio_score r = 31 / 40" "ar_cultural_score r = 1" "ar_overall_score r = 699 / 800"
    by (simp_all add: sk ex po cu)
  with h r show ?thesis by simp
qed

text \<open>
  Claim C6. The ranking of the claim drops the results below the minimum score, sorts by
  descending score and truncates to the maximum count, so it returns the best results.
  \<^verbatim>\<open>process_job_matches\<close> stops analysing as soon as it holds the maximum count and sorts
  only what it holds. Whatever the analysis computes (so also for scores rounded to
  doubles): when one match is asked for and the first of two jobs reaches the threshold
  with a score below that of the second, the code returns the first job and the ranking
  of the claim returns the second. For the candidate of Scenario A the code returns
  \<^verbatim>\<open>job-2\<close> (score 11/20) and never analyses \<^verbatim>\<open>job-1\<close> (score 49/60), which the ranking of
  the claim returns.
\<close>

theorem ranking_stops_at_first_kept:
  "(available_jobs state = [j1, j2] \<and> max_matches state = 1 \<and>
    min_match_score state \<le> match_score (analyze state j1) \<and>
    match_score (analyze state j1) < match_score (analyze state j2) \<longrightarrow>
      matches (process_job_matches analyze state) = [analyze state j1] \<and>
      ranking_spec (min_match_score state) (max_matches state)
        (map (analyze state) (available_jobs state)) = [analyze state j2]) \<and>
   map job_id (matches (process_job_matches analyze_job_match ranking_state)) = [''job-2''] \<and>
   map job_id (ranking_spec (min_match_score ranking_state) (max_matches ranking_state)
                 (map (analyze_job_match ranking_state) (available_jobs ranking_state)))
     = [''job-1''] \<and>
   map (\<lambda>m. (job_id m, match_score m))
       (map (analyze_job_match ranking_state) (available_jobs ranking_state))
     = [(''job-2'', 11 / 20), (''job-1'', 49 / 60)]"
proof -
  let ?a = "analyze_job_match ranking_state"
  have jobs: "available_jobs ranking_state = [scenario_B_job_data, scenario_A_job_data]"
    and mx: "max_matches ranking_state = 1" and mn: "min_match_score ranking_state = 0"
    by (simp_all add: ranking_state_def)
  have s2: "match_score (?a scenario_B_job_data) = 11 / 20"
    and s1: "match_score (?a scenario_A_job_data) = 49 / 60"
    by code_simp+
  have i2: "job_id (?a scenario_B_job_data) = ''job-2''"
    and i1: "job_id (?a scenario_A_job_data) = ''job-1''"
    by (simp_all add: analyze_job_match_def Let_def scenario_B_job_data_def
          scenario_A_job_data_def)
  have g: "available_jobs state = [j1, j2] \<and> max_matches state = 1 \<and>
    min_match_score state \<le> match_score (analyze state j1) \<and>
    match_score (analyze state j1) < match_score (analyze state j2) \<longrightarrow>
      matches (process_job_matches analyze state) = [analyze state j1] \<and>
      ranking_spec (min_match_score state) (max_matches state)
        (map (analyze state) (available_jobs state)) = [analyze state j2]"
    using first_kept_job_is_returned [of state j1 j2 analyze] by blast
  from first_kept_job_is_returned [of ranking_state scenario_B_job_data scenario_A_job_data
      analyze_job_match] jobs mx mn s1 s2
  have c: "matches (process_job_matches analyze_job_match ranking_state)
          = [?a scenario_B_job_data]"
    and r: "ranking_spec (min_match_score ranking_state) (max_matches ranking_state)
           (map ?a (available_jobs ranking_state)) = [?a scenario_A_job_data]"
    by simp_all
  have c': "map job_id (matches (process_job_matches analyze_job_match ranking_state))
      = [''job-2'']"
    by (simp add: c i2)
  have r': "map job_id (ranking_spec (min_match_score ranking_state)
                 (max_matches ranking_state)
                 (map (analyze_job_match ranking_state) (available_jobs ranking_state)))
     = [''job-1'']"
    by (simp add: r i1)
  have sc: "map (\<lambda>m. (job_id m, match_score m))
       (map (analyze_job_match ranking_state) (available_jobs ranking_state))
     = [(''job-2'', 11 / 20), (''job-1'', 49 / 60)]"
    by (simp add: jobs i1 i2 s1 s2)
  show ?thesis
    by (intro conjI) (rule g, rule c', rule r', rule sc)
qed

theorem ranking_stops_at_first_kept_witness:
  "available_jobs ranking_state = [scenario_B_job_data, scenario_A_job_data] \<and>
   max_matches ranking_state = 1 \<and>
   min_match_score ranking_state
     \<le> match_score (analyze_job_match ranking_state scenario_B_job_data) \<and>
   match_score (analyze_job_match ranking_state scenario_B_job_data)
     < match_score (analyze_job_match ranking_state scenario_A_job_data) \<and>
   matches (process_job_matches analyze_job_match ranking_state)
     = [analyze_job_match ranking_state scenario_B_job_data] \<and>
   ranking_spec (min_match_score ranking_state) (max_matches ranking_state)
     (map (analyze_job_match ranking_state) (available_jobs ranking_state))
     = [analyze_job_match ranking_state scenario_A_job_data]"
proof -
  let ?a = "analyze_job_match ranking_state"
  have jobs: "available_jobs ranking_state = [scenario_B_job_data, scenario_A_job_data]"
    and mx: "max_matches ranking_state = 1" and mn: "min_match_score ranking_state = 0"
    by (simp_all add: ranking_state_def)
  have s2: "match_score (?a scenario_B_job_data) = 11 / 20"
    and s1: "match_score (?a scenario_A_job_data) = 49 / 60"
    by code_simp+
  have h: "min_match_score ranking_state \<le> match_score (?a scenario_B_job_data)"
    "match_score (?a scenario_B_job_data) < match_score (?a scenario_A_job_data)"
    by (simp_all add: mn s1 s2)
  from ranking_stops_at_first_kept [of ranking_state scenario_B_job_data
      scenario_A_job_data analyze_job_match] jobs mx h
  have "matches (process_job_matches analyze_job_match ranking_state)
          = [?a scenario_B_job_data] \<and>
        ranking_spec (min_match_score ranking_state) (max_matches ranking_state)
          (map ?a (available_jobs ranking_state)) = [?a scenario_A_job_data]"
    by blast
  with jobs mx h show ?thesis by blast
qed

text \<open>
  Claim C5 (as amended). The state records an error in the single string
  \<^verbatim>\<open>error_message\<close>, not in a list: a stage that catches an exception stores the text of
  that exception there, without the name of the stage (\<^verbatim>\<open>load_candidate_profile\<close> stores
  \<^verbatim>\<open>Candidate profile not found\<close> when there is no profile), and a stage that catches
  nothing leaves the string as it was. When the four stages are applied in their order
  to a fresh state, a text that one stage has stored is neither replaced nor cleared by
  the stages after it.
\<close>

theorem error_message_written_once:
  "MatchingState.error_message (load_candidate_profile state fetched) =
     (case fetched of
        Inl e \<Rightarrow> e
      | Inr None \<Rightarrow> ''Candidate profile not found''
      | Inr (Some md) \<Rightarrow> MatchingState.error_message state) \<and>
   MatchingState.error_message (search_available_jobs state found) =
     (case found of
        Inl e \<Rightarrow> if MatchingState.candidate_profile state = empty_profile
                 then MatchingState.error_message state else e
      | Inr results \<Rightarrow> MatchingState.error_message state) \<and>
   MatchingState.error_message (process_job_matches analyze state)
     = MatchingState.error_message state \<and>
   MatchingState.error_message (notify_candidate_finder state sent) =
     (case sent of
        None \<Rightarrow> MatchingState.error_message state
      | Some e \<Rightarrow> if matches state = [] then MatchingState.error_message state else e) \<and>
   (let s0 = MatchingState_init cid;
        s1 = load_candidate_profile s0 fetched;
        s2 = search_available_jobs s1 found;
        s3 = process_job_matches analyze s2;
        s4 = notify_candidate_finder s3 sent
    in (MatchingState.error_message s1 \<noteq> MatchingState.error_message s0 \<longrightarrow>
          MatchingState.error_message s2 = MatchingState.error_message s1 \<and>
          MatchingState.error_message s3 = MatchingState.error_message s1 \<and>
          MatchingState.error_message s4 = MatchingState.error_message s1) \<and>
       (MatchingState.error_message s2 \<noteq> MatchingState.error_message s1 \<longrightarrow>
          MatchingState.error_message s3 = MatchingState.error_message s2 \<and>
          MatchingState.error_message s4 = MatchingState.error_message s2))"
proof -
  have l: "MatchingState.error_message (load_candidate_profile s fetched) =
     (case fetched of
        Inl e \<Rightarrow> e
      | Inr None \<Rightarrow> ''Candidate profile not found''
      | Inr (Some md) \<Rightarrow> MatchingState.error_message s)" for s
    by (simp add: load_candidate_profile_def split: sum.splits option.splits)
  have f: "MatchingState.error_message (search_available_jobs s found) =
     (case found of
        Inl e \<Rightarrow> if MatchingState.candidate_profile s = empty_profile
                 then MatchingState.error_message s else e
      | Inr results \<Rightarrow> MatchingState.error_message s)" for s
    by (simp add: search_available_jobs_def split: sum.splits)
  have p: "MatchingState.error_message (process_job_matches analyze s)
      = MatchingState.error_message s" for s
    by (simp add: process_job_matches_def)
  have n: "MatchingState.error_message (notify_candidate_finder s sent) =
     (case sent of
        None \<Rightarrow> MatchingState.error_message s
      | Some e \<Rightarrow> if matches s = [] then MatchingState.error_message s else e)" for s
    by (simp add: notify_candidate_finder_def split: option.splits)
  define s0 where "s0 = MatchingState_init cid"
  define s1 where "s1 = load_candidate_profile s0 fetched"
  define s2 where "s2 = search_available_jobs s1 found"
  define s3 where "s3 = process_job_matches analyze s2"
  define s4 where "s4 = notify_candidate_finder s3 sent"
  have j1: "available_jobs s1 = []"
    by (simp add: s1_def s0_def load_candidate_profile_def MatchingState_init_def
          split: sum.splits option.splits)
  have no_jobs: "matches (process_job_matches analyze s) = []" if "available_jobs s = []" for s
    using that by (simp add: process_job_matches_def sort_reverse_def)
  have quiet: "MatchingState.error_message (notify_candidate_finder s sent)
      = MatchingState.error_message s" if "matches s = []" for s
    using that by (simp add: notify_candidate_finder_def)
  have a: "MatchingState.error_message s1 \<noteq> MatchingState.error_message s0 \<longrightarrow>
          MatchingState.error_message s2 = MatchingState.error_message s1 \<and>
          MatchingState.error_message s3 = MatchingState.error_message s1 \<and>
          MatchingState.error_message s4 = MatchingState.error_message s1"
  proof
    assume w: "MatchingState.error_message s1 \<noteq> MatchingState.error_message s0"
    then have "MatchingState.candidate_profile s1 = empty_profile"
      by (auto simp add: s1_def s0_def load_candidate_profile_def MatchingState_init_def
            split: sum.splits option.splits)
    then have e: "s2 = s1"
      by (simp add: s2_def search_available_jobs_def)
    have e3: "MatchingState.error_message s3 = MatchingState.error_message s1"
      unfolding s3_def e by (rule p)
    have "matches s3 = []"
      unfolding s3_def e by (rule no_jobs [OF j1])
    then have "MatchingState.error_message s4 = MatchingState.error_message s3"
      unfolding s4_def by (rule quiet)
    with e e3 show "MatchingState.error_message s2 = MatchingState.error_message s1 \<and>
          MatchingState.error_message s3 = MatchingState.error_message s1 \<and>
          MatchingState.error_message s4 = MatchingState.error_message s1"
      by simp
  qed
  have b: "MatchingState.error_message s2 \<noteq> MatchingState.error_message s1 \<longrightarrow>
          MatchingState.error_message s3 = MatchingState.error_message s2 \<and>
          MatchingState.error_message s4 = MatchingState.error_message s2"
  proof
    assume w: "MatchingState.error_message s2 \<noteq> MatchingState.error_message s1"
    then have "available_jobs s2 = available_jobs s1"
      by (auto simp add: s2_def search_available_jobs_def split: sum.splits if_splits)
    with j1 have "available_jobs s2 = []" by simp
    then have "matches s3 = []"
      unfolding s3_def by (rule no_jobs)
    then have "MatchingState.error_message s4 = MatchingState.error_message s3"
      unfolding s4_def by (rule quiet)
    moreover have "MatchingState.error_message s3 = MatchingState.error_message s2"
      unfolding s3_def by (rule p)
    ultimately show "MatchingState.error_message s3 = MatchingState.error_message s2 \<and>
          MatchingState.error_message s4 = MatchingState.error_message s2"
      by simp
  qed
  have run: "(let s0 = MatchingState_init cid;
        s1 = load_candidate_profile s0 fetched;
        s2 = search_available_jobs s1 found;
        s3 = process_job_matches analyze s2;
        s4 = notify_candidate_finder s3 sent
    in (MatchingState.error_message s1 \<noteq> MatchingState.error_message s0 \<longrightarrow>
          MatchingState.error_message s2 = MatchingState.error_message s1 \<and>
          MatchingState.error_message s3 = MatchingState.error_message s1 \<and>
          MatchingState.error_message s4 = MatchingState.error_message s1) \<and>
       (MatchingState.error_message s2 \<noteq> MatchingState.error_message s1 \<longrightarrow>
          MatchingState.error_message s3 = MatchingState.error_message s2 \<and>
          MatchingState.error_message s4 = MatchingState.error_message s2))"
    unfolding Let_def s0_def [symmetric] s1_def [symmetric] s2_def [symmetric]
      s3_def [symmetric] s4_def [symmetric]
    using a b by (rule conjI)
  show ?thesis
    by (intro conjI) (rule l, rule f, rule p, rule n, rule run)
qed

theorem error_message_written_once_witness:
  "MatchingState.error_message
     (load_candidate_profile (MatchingState_init ''candidate-1'') (Inr None))
     = ''Candidate profile not found'' \<and>
   MatchingState.error_message
     (notify_candidate_finder
        (process_job_matches analyze_job_match
           (search_available_jobs
              (load_candidate_profile (MatchingState_init ''candidate-1'') (Inr None))
              (Inl ''search timed out'')))
        (Some ''broker unreachable''))
     = ''Candidate profile not found'' \<and>
   MatchingState.error_message
     (load_candidate_profile (MatchingState_init ''candidate-1'')
        (Inr (Some scenario_A_candidate)))
     = []"
proof -
  note t = error_message_written_once [of "MatchingState_init ''candidate-1''" _
      "Inl ''search timed out''" analyze_job_match "Some ''broker unreachable''"
      "''candidate-1''"]
  have i: "MatchingState.error_message (MatchingState_init ''candidate-1'') = []"
    by (simp add: MatchingState_init_def)
  from t [of "Inr None"] have 1: "MatchingState.error_message
     (load_candidate_profile (MatchingState_init ''candidate-1'') (Inr None))
     = ''Candidate profile not found''"
    by simp
  with t [of "Inr None"] i have 2: "MatchingState.error_message
     (notify_candidate_finder
        (process_job_matches analyze_job_match
           (search_available_jobs
              (load_candidate_profile (MatchingState_init ''candidate-1'') (Inr None))
              (Inl ''search timed out'')))
        (Some ''broker unreachable''))
     = ''Candidate profile not found''"
    unfolding Let_def by simp
  from t [of "Inr (Some scenario_A_candidate)"] i have 3: "MatchingState.error_message
     (load_candidate_profile (MatchingState_init ''candidate-1'')
        (Inr (Some scenario_A_candidate)))
     = []"
    by simp
  from 1 2 3 show ?thesis by simp
qed

text \<open>
  The record is not a list of entries that name their stage: after a load on a fresh
  state that catches the exception \<^verbatim>\<open>connection refused\<close>, the record is that bare text,
  in which no part of the name of the stage occurs; and when no profile is found it is
  the fixed text \<^verbatim>\<open>Candidate profile not found\<close>.
\<close>

theorem error_message_is_bare_text_counterexample:
  "MatchingState.error_message
     (load_candidate_profile (MatchingState_init ''candidate-1'') (Inl ''connection refused''))
     = ''connection refused'' \<and>
   \<not> str_in ''load'' ''connection refused'' \<and>
   \<not> str_in ''profile'' ''connection refused'' \<and>
   MatchingState.error_message
     (load_candidate_profile (MatchingState_init ''candidate-1'') (Inr None))
     = ''Candidate profile not found'' \<and>
   \<not> str_in ''load'' ''Candidate profile not found''"
proof -
  have a: "MatchingState.error_message
     (load_candidate_profile (MatchingState_init ''candidate-1'') (Inl ''connection refused''))
     = ''connection refused''"
    by (simp add: load_candidate_profile_def)
  have b: "MatchingState.error_message
     (load_candidate_profile (MatchingState_init ''candidate-1'') (Inr None))
     = ''Candidate profile not found''"
    by (simp add: load_candidate_profile_def)
  have c: "\<not> str_in ''load'' ''connection refused''"
    "\<not> str_in ''profile'' ''connection refused''"
    "\<not> str_in ''load'' ''Candidate profile not found''"
    by code_simp+
  from a b c show ?thesis by simp
qed

text \<open>
  Claim C3. For every message that the constructor makes, of every message type, with a
  valid timestamp, naive or with a UTC offset: decoding the encoded message gives the
  message back, equal on all seven fields. This holds for the reader of the ISO-8601
  form given above and for every \<^verbatim>\<open>fromisoformat\<close> that reads back what \<^verbatim>\<open>isoformat\<close> writes.
  In between, the wire form holds the seven keys in the order of the fields, the type as
  its string tag and the timestamp in ISO-8601 form.
\<close>

theorem message_round_trip:
  assumes "m = Message_new utcnow mid mt sid rid ts pl md"
    and "valid_datetime (timestamp m)"
  shows "from_dict read_isoformat (to_dict m) = Inr m \<and>
         (inverts_isoformat fromisoformat \<longrightarrow> from_dict fromisoformat (to_dict m) = Inr m) \<and>
         map_of (to_dict m) ''message_type'' = Some (PStr (MessageType_value mt)) \<and>
         map_of (to_dict m) ''timestamp'' = Some (PStr (isoformat (timestamp m))) \<and>
         map fst (to_dict m) = Message_fields"
proof -
  have p: "payload m \<noteq> PNone" and q: "metadata m \<noteq> PNone"
    unfolding assms(1) by (simp_all add: Message_new_def none_to_empty_def)
  have t: "message_type m = mt"
    unfolding assms(1) by (simp add: Message_new_def)
  have a: "from_dict read_isoformat (to_dict m) = Inr m"
    by (rule from_dict_to_dict [OF inverts_isoformat_read assms(2) p q])
  have b: "inverts_isoformat fromisoformat \<longrightarrow> from_dict fromisoformat (to_dict m) = Inr m"
    using from_dict_to_dict [OF _ assms(2) p q] by blast
  from a b t show ?thesis
    by (simp add: to_dict_def Message_fields_def)
qed

theorem message_round_trip_witness:
  "from_dict read_isoformat (to_dict (match_request_to (PStr ''candidate_finder_agent'')))
     = Inr (match_request_to (PStr ''candidate_finder_agent'')) \<and>
   map_of (to_dict (match_request_to (PStr ''candidate_finder_agent''))) ''message_type''
     = Some (PStr ''match_request'') \<and>
   map_of (to_dict (match_request_to (PStr ''candidate_finder_agent''))) ''timestamp''
     = Some (PStr ''2024-05-17T09:30:05.000123'') \<and>
   from_dict read_isoformat (to_dict aware_broadcast) = Inr aware_broadcast \<and>
   map_of (to_dict aware_broadcast) ''timestamp''
     = Some (PStr ''2024-05-17T09:30:05.000123+05:30'')"
proof -
  let ?m = "match_request_to (PStr ''candidate_finder_agent'')"
  have ts: "timestamp ?m = example_time"
    by (simp add: match_request_to_def Message_new_def)
  have v: "valid_datetime (timestamp ?m)"
    unfolding ts by (rule valid_example_time)
  have i: "isoformat example_time = ''2024-05-17T09:30:05.000123''"
    by code_simp
  have tsa: "timestamp aware_broadcast = example_time_aware"
    by (simp add: aware_broadcast_def Message_new_def)
  have va: "valid_datetime (timestamp aware_broadcast)"
    unfolding tsa by (rule valid_example_time_aware)
  have c: "char_of (48 :: nat) = CHR ''0''" "char_of (51 :: nat) = CHR ''3''"
    "char_of (53 :: nat) = CHR ''5''"
    by code_simp+
  have fo: "format_offset 19800000000 = ''+05:30''"
    by (simp add: format_offset_def Let_def numeral_2_eq_2 c)
  have "isoformat example_time_aware = isoformat example_time @ format_offset 19800000000"
    by (simp add: isoformat_def example_time_aware_def example_time_def)
  then have ia: "isoformat example_time_aware = ''2024-05-17T09:30:05.000123+05:30''"
    by (simp add: i fo)
  from message_round_trip [OF match_request_to_def v, of read_isoformat]
    message_round_trip [OF aware_broadcast_def va, of read_isoformat] ts i tsa ia
  show ?thesis by simp
qed

text \<open>
  Claim C4 (as amended). \<^verbatim>\<open>process_message\<close> returns false, calls no handler and leaves the
  world untouched when the envelope does not decode, when the decoded message carries a
  truthy receiver identity (of any type) other than the agent's own, and when no handler
  is registered for the type. In every other case it calls the handler registered for the
  type, once; it returns true if the handler returns, returns false if the handler raises
  an \<^verbatim>\<open>Exception\<close>, and lets an exception outside \<^verbatim>\<open>Exception\<close> (such as
  \<^verbatim>\<open>asyncio.CancelledError\<close>) propagate to its caller.
\<close>

theorem process_message_dispatch:
  "(from_dict fromisoformat message_data = Inl e \<longrightarrow>
      process_message fromisoformat self message_data w
        = \<lparr>handled = Inr False, invoked = [], world = w\<rparr>) \<and>
   (from_dict fromisoformat message_data = Inr m
      \<and> truthy (receiver_id m) \<and> receiver_id m \<noteq> PStr (agent_id self) \<longrightarrow>
      process_message fromisoformat self message_data w
        = \<lparr>handled = Inr False, invoked = [], world = w\<rparr>) \<and>
   (from_dict fromisoformat message_data = Inr m
      \<and> message_handlers self (message_type m) = None \<longrightarrow>
      process_message fromisoformat self message_data w
        = \<lparr>handled = Inr False, invoked = [], world = w\<rparr>) \<and>
   (from_dict fromisoformat message_data = Inr m
      \<and> \<not> (truthy (receiver_id m) \<and> receiver_id m \<noteq> PStr (agent_id self))
      \<and> message_handlers self (message_type m) = Some h \<longrightarrow>
      invoked (process_message fromisoformat self message_data w) = [message_type m] \<and>
      world (process_message fromisoformat self message_data w) = fst (h m w) \<and>
      handled (process_message fromisoformat self message_data w) =
        (case snd (h m w) of
           Returns \<Rightarrow> Inr True
         | Raises x \<Rightarrow> Inr False
         | Raises_base x \<Rightarrow> Inl x))"
proof -
  let ?P = "process_message fromisoformat self message_data w"
  have a: "from_dict fromisoformat message_data = Inl e \<longrightarrow>
      ?P = \<lparr>handled = Inr False, invoked = [], world = w\<rparr>"
    by (simp add: process_message_def)
  have b: "from_dict fromisoformat message_data = Inr m
      \<and> truthy (receiver_id m) \<and> receiver_id m \<noteq> PStr (agent_id self) \<longrightarrow>
      ?P = \<lparr>handled = Inr False, invoked = [], world = w\<rparr>"
    by (simp add: process_message_def)
  have c: "from_dict fromisoformat message_data = Inr m
      \<and> message_handlers self (message_type m) = None \<longrightarrow>
      ?P = \<lparr>handled = Inr False, invoked = [], world = w\<rparr>"
    by (simp add: process_message_def)
  have d: "from_dict fromisoformat message_data = Inr m
      \<and> \<not> (truthy (receiver_id m) \<and> receiver_id m \<noteq> PStr (agent_id self))
      \<and> message_handlers self (message_type m) = Some h \<longrightarrow>
      invoked ?P = [message_type m] \<and> world ?P = fst (h m w) \<and>
      handled ?P =
        (case snd (h m w) of
           Returns \<Rightarrow> Inr True
         | Raises x \<Rightarrow> Inr False
         | Raises_base x \<Rightarrow> Inl x)"
    by (cases "h m w") (auto simp add: process_message_def split: handler_end.splits)
  show ?thesis
    by (intro conjI) (rule a, rule b, rule c, rule d)
qed

theorem process_message_dispatch_witness:
  "process_message read_isoformat agent_A (to_dict (match_request_to (PStr ''B''))) 0
     = \<lparr>handled = Inr False, invoked = [], world = 0\<rparr> \<and>
   process_message read_isoformat agent_A (to_dict (match_request_to (PInt 5))) 0
     = \<lparr>handled = Inr False, invoked = [], world = 0\<rparr> \<and>
   process_message read_isoformat agent_A (to_dict (broadcast_of JOB_DELETED)) 0
     = \<lparr>handled = Inr False, invoked = [], world = 0\<rparr> \<and>
   process_message read_isoformat agent_A undecodable_envelope 0
     = \<lparr>handled = Inr False, invoked = [], world = 0\<rparr> \<and>
   handled (process_message read_isoformat agent_A (to_dict (match_request_to (PStr ''A''))) 0)
     = Inr True \<and>
   invoked (process_message read_isoformat agent_A (to_dict (match_request_to (PStr ''A''))) 0)
     = [MATCH_REQUEST] \<and>
   handled (process_message read_isoformat agent_A (to_dict (broadcast_of CANDIDATE_CREATED)) 0)
     = Inl ''CancelledError''"
proof -
  have aid: "agent_id agent_A = ''A''"
    by (simp add: agent_A_def register_handler_def AgentToAgentProtocol_init_def)
  have hd: "message_handlers agent_A JOB_DELETED = None"
    by (simp add: agent_A_def register_handler_def AgentToAgentProtocol_init_def)
  have hm: "message_handlers agent_A MATCH_REQUEST = Some counting_handler"
    by (simp add: agent_A_def register_handler_def AgentToAgentProtocol_init_def)
  have hc: "message_handlers agent_A CANDIDATE_CREATED = Some cancelled_handler"
    by (simp add: agent_A_def register_handler_def AgentToAgentProtocol_init_def)
  have rb: "receiver_id (match_request_to x) = x" for x
    by (simp add: match_request_to_def Message_new_def)
  have tm: "message_type (match_request_to x) = MATCH_REQUEST" for x
    by (simp add: match_request_to_def Message_new_def)
  have td: "message_type (broadcast_of mt) = mt" for mt
    by (simp add: broadcast_of_def Message_new_def)
  have rd: "receiver_id (broadcast_of mt) = PNone" for mt
    by (simp add: broadcast_of_def Message_new_def)
  have u: "from_dict read_isoformat undecodable_envelope = Inl ValueError"
    by (simp add: from_dict_def undecodable_envelope_def MessageType_of_value_def
          MessageType_members_def)
  note d = process_message_dispatch [where fromisoformat = read_isoformat and self = agent_A
      and w = 0]
  have 1: "process_message read_isoformat agent_A (to_dict (match_request_to (PStr ''B''))) 0
     = \<lparr>handled = Inr False, invoked = [], world = 0\<rparr>"
    using d [where message_data = "to_dict (match_request_to (PStr ''B''))"
               and m = "match_request_to (PStr ''B'')"]
          from_dict_match_request_to [of "PStr ''B''"] rb [of "PStr ''B''"] aid
    by simp
  have 2: "process_message read_isoformat agent_A (to_dict (match_request_to (PInt 5))) 0
     = \<lparr>handled = Inr False, invoked = [], world = 0\<rparr>"
    using d [where message_data = "to_dict (match_request_to (PInt 5))"
               and m = "match_request_to (PInt 5)"]
          from_dict_match_request_to [of "PInt 5"] rb [of "PInt 5"]
    by simp
  have 3: "process_message read_isoformat agent_A (to_dict (broadcast_of JOB_DELETED)) 0
     = \<lparr>handled = Inr False, invoked = [], world = 0\<rparr>"
    using d [where message_data = "to_dict (broadcast_of JOB_DELETED)"
               and m = "broadcast_of JOB_DELETED"]
          from_dict_broadcast_of [of JOB_DELETED] td [of JOB_DELETED] hd
    by simp
  have 4: "process_message read_isoformat agent_A undecodable_envelope 0
     = \<lparr>handled = Inr False, invoked = [], world = 0\<rparr>"
    using d [where message_data = undecodable_envelope and e = ValueError] u
    by simp
  have 5: "handled (process_message read_isoformat agent_A
                      (to_dict (match_request_to (PStr ''A''))) 0) = Inr True \<and>
     invoked (process_message read_isoformat agent_A
                (to_dict (match_request_to (PStr ''A''))) 0) = [MATCH_REQUEST]"
    using d [where message_data = "to_dict (match_request_to (PStr ''A''))"
               and m = "match_request_to (PStr ''A'')" and h = counting_handler]
          from_dict_match_request_to [of "PStr ''A''"] rb [of "PStr ''A''"] aid hm
          tm [of "PStr ''A''"]
    by (simp add: counting_handler_def)
  have 6: "handled (process_message read_isoformat agent_A
                      (to_dict (broadcast_of CANDIDATE_CREATED)) 0) = Inl ''CancelledError''"
    using d [where message_data = "to_dict (broadcast_of CANDIDATE_CREATED)"
               and m = "broadcast_of CANDIDATE_CREATED" and h = cancelled_handler]
          from_dict_broadcast_of [of CANDIDATE_CREATED] rd [of CANDIDATE_CREATED] hc
          td [of CANDIDATE_CREATED]
    by (simp add: cancelled_handler_def)
  from 1 2 3 4 5 6 show ?thesis by simp
qed

text \<open>
  Two envelopes outside the three cases of the claim. A broadcast whose handler raises an
  \<^verbatim>\<open>Exception\<close>: the handler is called, and the result is false, not true. A message whose
  receiver identity is the empty string, which differs from the agent's identity \<^verbatim>\<open>A\<close>:
  the handler is called and the result is true, not false.
\<close>

theorem process_message_handler_raises_counterexample:
  "process_message read_isoformat agent_A (to_dict (broadcast_of JOB_CREATED)) 0
     = \<lparr>handled = Inr False, invoked = [JOB_CREATED], world = 1\<rparr> \<and>
   receiver_id (match_request_to (PStr [])) = PStr [] \<and>
   PStr [] \<noteq> PStr (agent_id agent_A) \<and>
   process_message read_isoformat agent_A (to_dict (match_request_to (PStr []))) 0
     = \<lparr>handled = Inr True, invoked = [MATCH_REQUEST], world = 1\<rparr>"
proof -
  have aid: "agent_id agent_A = ''A''"
    by (simp add: agent_A_def register_handler_def AgentToAgentProtocol_init_def)
  have hj: "message_handlers agent_A JOB_CREATED = Some failing_handler"
    by (simp add: agent_A_def register_handler_def AgentToAgentProtocol_init_def)
  have hm: "message_handlers agent_A MATCH_REQUEST = Some counting_handler"
    by (simp add: agent_A_def register_handler_def AgentToAgentProtocol_init_def)
  have rb: "receiver_id (broadcast_of JOB_CREATED) = PNone"
    and tb: "message_type (broadcast_of JOB_CREATED) = JOB_CREATED"
    by (simp_all add: broadcast_of_def Message_new_def)
  have rm: "receiver_id (match_request_to (PStr [])) = PStr []"
    and tm: "message_type (match_request_to (PStr [])) = MATCH_REQUEST"
    by (simp_all add: match_request_to_def Message_new_def)
  have 1: "process_message read_isoformat agent_A (to_dict (broadcast_of JOB_CREATED)) 0
     = \<lparr>handled = Inr False, invoked = [JOB_CREATED], world = 1\<rparr>"
    by (simp add: process_message_def from_dict_broadcast_of rb tb hj failing_handler_def)
  have 2: "process_message read_isoformat agent_A (to_dict (match_request_to (PStr []))) 0
     = \<lparr>handled = Inr True, invoked = [MATCH_REQUEST], world = 1\<rparr>"
    by (simp add: process_message_def from_dict_match_request_to rm tm hm counting_handler_def)
  from 1 2 rm aid show ?thesis by simp
qed

end
